theory Spec2Isabelle
  imports Main "HOL-Library.Sublist"
begin

section \<open>Python values, exceptions and strings\<close>

text \<open>
  The server of \<^verbatim>\<open>tableau_mcp_server.py\<close> is modelled by explicit state passing: every
  method of \<^verbatim>\<open>TableauServerMCP\<close> takes the client and returns its result together with
  the updated client. A Python exception is the left injection of a sum, so every
  \<^verbatim>\<open>raise\<close> and every \<^verbatim>\<open>except\<close> of the source is a branch of the model.

  Strings are byte strings; \<^verbatim>\<open>str.lower\<close> is modelled on the ASCII letters, which is
  what it does on ASCII text. Only subclasses of \<^verbatim>\<open>Exception\<close> are modelled, the ones
  \<^verbatim>\<open>except Exception\<close> catches. Logging has no effect on any result and is left out.
\<close>

datatype exn =
    ValueError string
  | AttributeError string
  | TypeError string
  | ParseError string
  | OtherError string

fun str_exn :: "exn \<Rightarrow> string" where
  "str_exn (ValueError m) = m"
| "str_exn (AttributeError m) = m"
| "str_exn (TypeError m) = m"
| "str_exn (ParseError m) = m"
| "str_exn (OtherError m) = m"

text \<open>
  A dynamically typed value: \<^verbatim>\<open>None\<close>, a \<^verbatim>\<open>str\<close>, or a value of any other type
  (a decoded JSON number, list, object, ...). Of a value that is not a string the program
  observes only its truth value, its formatted text and the name of its type (in the
  message of the \<^verbatim>\<open>AttributeError\<close> that \<^verbatim>\<open>.lower()\<close> raises on it).
\<close>

datatype pyval =
    PNone
  | PStr string
  | POther (tyname: string) (truth: bool) (repr: string)

fun truthy :: "pyval \<Rightarrow> bool" where
  "truthy PNone = False"
| "truthy (PStr s) = (s \<noteq> [])"
| "truthy (POther tn b r) = b"

fun fmt :: "pyval \<Rightarrow> string" where
  "fmt PNone = ''None''"
| "fmt (PStr s) = s"
| "fmt (POther tn b r) = r"

fun of_opt :: "string option \<Rightarrow> pyval" where
  "of_opt None = PNone"
| "of_opt (Some s) = PStr s"

definition sq :: string where
  "sq = [CHR 0x27]"

definition nl :: string where
  "nl = [CHR 0x0A]"

definition lower_char :: "char \<Rightarrow> char" where
  "lower_char c =
     (case map_of (zip ''ABCDEFGHIJKLMNOPQRSTUVWXYZ'' ''abcdefghijklmnopqrstuvwxyz'') c of
        None \<Rightarrow> c
      | Some l \<Rightarrow> l)"

definition lower :: "string \<Rightarrow> string" where
  "lower s = map lower_char s"

definition no_lower :: "string \<Rightarrow> exn" where
  "no_lower tn = AttributeError (sq @ tn @ sq @ '' object has no attribute '' @ sq @ ''lower'' @ sq)"

fun py_lower :: "pyval \<Rightarrow> exn + string" where
  "py_lower PNone = Inl (no_lower ''NoneType'')"
| "py_lower (PStr s) = Inr (lower s)"
| "py_lower (POther tn b r) = Inl (no_lower tn)"

fun split_sep :: "char \<Rightarrow> string \<Rightarrow> string list" where
  "split_sep c [] = [[]]"
| "split_sep c (x # xs) =
     (if x = c then [] # split_sep c xs
      else (case split_sep c xs of [] \<Rightarrow> [[x]] | w # ws \<Rightarrow> (x # w) # ws))"

fun join :: "string \<Rightarrow> string list \<Rightarrow> string" where
  "join sep [] = []"
| "join sep [x] = x"
| "join sep (x # y # ys) = x @ sep @ join sep (y # ys)"

function str_nat :: "nat \<Rightarrow> string" where
  "str_nat n =
     (if n < 10 then [''0123456789'' ! n] else str_nat (n div 10) @ [''0123456789'' ! (n mod 10)])"
  by pat_completeness auto
termination
  by (relation "measure id") auto

declare str_nat.simps [simp del]

section \<open>XML elements\<close>

text \<open>
  An \<^verbatim>\<open>xml.etree.ElementTree.Element\<close>: tag, attributes, children in document order.
  \<^verbatim>\<open>el.get(k)\<close> is \<open>xml_get\<close>, \<^verbatim>\<open>el.findall('.//t')\<close> is \<open>findall_desc\<close> (every element
  below \<open>el\<close> with tag \<open>t\<close>, in document order, \<open>el\<close> itself excluded),
  \<^verbatim>\<open>el.find('.//t')\<close> is \<open>find_desc\<close> and \<^verbatim>\<open>el.find(t)\<close> is \<open>find_child\<close>.
\<close>

datatype xml = Element (tag: string) (attrib: "(string \<times> string) list") (children: "xml list")

fun iter_below :: "xml \<Rightarrow> xml list" where
  "iter_below (Element t a cs) = concat (map (\<lambda>c. c # iter_below c) cs)"

definition xml_get :: "xml \<Rightarrow> string \<Rightarrow> string option" where
  "xml_get el k = map_of (attrib el) k"

definition xml_get_default :: "xml \<Rightarrow> string \<Rightarrow> string \<Rightarrow> string" where
  "xml_get_default el k d = (case map_of (attrib el) k of None \<Rightarrow> d | Some v \<Rightarrow> v)"

definition findall_desc :: "string \<Rightarrow> xml \<Rightarrow> xml list" where
  "findall_desc t el = filter (\<lambda>x. tag x = t) (iter_below el)"

definition find_desc :: "string \<Rightarrow> xml \<Rightarrow> xml option" where
  "find_desc t el = (case findall_desc t el of [] \<Rightarrow> None | x # xs \<Rightarrow> Some x)"

definition find_child :: "string \<Rightarrow> xml \<Rightarrow> xml option" where
  "find_child t el =
     (case filter (\<lambda>x. tag x = t) (children el) of [] \<Rightarrow> None | x # xs \<Rightarrow> Some x)"

section \<open>The client, the network and the libraries\<close>

record client_session =
  trust_env :: bool
  default_headers :: "(string \<times> string) list"

record request =
  req_session :: client_session
  req_method :: string
  req_url :: string
  req_data :: "string option"
  req_headers :: "(string \<times> string option) list"
  req_proxy :: "string option"

text \<open>
  What the program reads of an \<^verbatim>\<open>aiohttp\<close> response: \<^verbatim>\<open>status\<close>, \<^verbatim>\<open>content_type\<close>,
  \<^verbatim>\<open>await text()\<close> and \<^verbatim>\<open>await json()\<close>, the last two of which may raise.
\<close>

record http_response =
  resp_status :: int
  resp_content_type :: string
  resp_text :: "exn + string"
  resp_json :: "exn + pyval"

text \<open>
  The libraries and the network are parameters. \<open>http\<close> answers a request, given the
  requests issued before it, with a response or a transport exception; \<open>fromstring\<close> is
  \<^verbatim>\<open>ET.fromstring\<close>, which raises \<^verbatim>\<open>ParseError\<close> on malformed XML and another exception
  on a value that is no string; \<open>urljoin\<close> is \<^verbatim>\<open>urllib.parse.urljoin\<close>.
\<close>

record env =
  http :: "request list \<Rightarrow> request \<Rightarrow> exn + http_response"
  fromstring :: "pyval \<Rightarrow> exn + xml"
  urljoin :: "string \<Rightarrow> string \<Rightarrow> exn + string"

text \<open>
  The fields of \<^verbatim>\<open>TableauServerMCP\<close>, and \<open>sent\<close>: the requests issued so far, which is
  no field of the class but the part of the world the server's answers may depend on.
\<close>

record client =
  server_url :: string
  site_id :: string
  token_name :: "string option"
  token_value :: "string option"
  proxy_url :: string
  no_proxy :: string
  auth_token :: "string option"
  site_uuid :: "string option"
  session :: "client_session option"
  sent :: "request list"

definition user_agent :: "(string \<times> string) list" where
  "user_agent = [(''User-Agent'', ''Nordstrom-Tableau-MCP/1.0'')]"

definition initialize_session :: "client \<Rightarrow> client" where
  "initialize_session s =
     (if proxy_url s \<noteq> [] \<and>
         \<not> list_ex (\<lambda>host. sublist host (server_url s)) (split_sep (CHR '','') (no_proxy s))
      then s\<lparr>session := Some \<lparr>trust_env = True, default_headers = user_agent\<rparr>\<rparr>
      else s\<lparr>session := Some \<lparr>trust_env = False, default_headers = user_agent\<rparr>\<rparr>)"

definition proxy_arg :: "client \<Rightarrow> string option" where
  "proxy_arg s = (if proxy_url s \<noteq> [] then Some (proxy_url s) else None)"

definition signin_xml :: "string \<Rightarrow> string \<Rightarrow> string \<Rightarrow> string" where
  "signin_xml tn tv site =
     nl @ ''        <tsRequest>'' @ nl @
     ''            <credentials personalAccessTokenName='' @ sq @ tn @ sq @
       '' personalAccessTokenSecret='' @ sq @ tv @ sq @ ''>'' @ nl @
     ''                <site contentUrl='' @ sq @ site @ sq @ '' />'' @ nl @
     ''            </credentials>'' @ nl @
     ''        </tsRequest>'' @ nl @
     ''        ''"

definition signin_request :: "client \<Rightarrow> client_session \<Rightarrow> request" where
  "signin_request s cs =
     \<lparr>req_session = cs,
      req_method = ''POST'',
      req_url = server_url s @ ''/api/3.19/auth/signin'',
      req_data = Some (signin_xml (fmt (of_opt (token_name s))) (fmt (of_opt (token_value s))) (site_id s)),
      req_headers = [(''Content-Type'', Some ''application/xml'')],
      req_proxy = proxy_arg s\<rparr>"

text \<open>
  The assignments of \<^verbatim>\<open>authenticate\<close> after a status 200 whose body parsed: the token is
  the \<^verbatim>\<open>token\<close> attribute of the first \<^verbatim>\<open>credentials\<close> element below the root, the
  site UUID the \<^verbatim>\<open>id\<close> attribute of its first \<^verbatim>\<open>site\<close> child.
\<close>

definition store_credentials :: "xml \<Rightarrow> client \<Rightarrow> client" where
  "store_credentials root s =
     (case find_desc ''credentials'' root of
        None \<Rightarrow> s
      | Some credentials \<Rightarrow>
          (let s1 = s\<lparr>auth_token := xml_get credentials ''token''\<rparr> in
           case find_child ''site'' credentials of
             None \<Rightarrow> s1
           | Some site \<Rightarrow> s1\<lparr>site_uuid := xml_get site ''id''\<rparr>))"

definition credentials_missing :: "client \<Rightarrow> bool" where
  "credentials_missing s = (\<not> truthy (of_opt (token_name s)) \<or> \<not> truthy (of_opt (token_value s)))"

definition missing_credentials_error :: exn where
  "missing_credentials_error =
     ValueError ''TABLEAU_TOKEN_NAME and TABLEAU_TOKEN_VALUE must be set in .env file''"

text \<open>
  \<^verbatim>\<open>authenticate\<close>. The check of the credential pair stands before the \<^verbatim>\<open>try\<close>, so its
  \<^verbatim>\<open>ValueError\<close> leaves the method; everything after it is inside
  \<^verbatim>\<open>try ... except Exception: return False\<close>. With no HTTP session the attribute access
  \<^verbatim>\<open>self.session.post\<close> raises inside the \<^verbatim>\<open>try\<close>.
\<close>

definition authenticate :: "env \<Rightarrow> client \<Rightarrow> (exn + bool) \<times> client" where
  "authenticate e s =
     (if credentials_missing s then (Inl missing_credentials_error, s)
      else
        (case session s of
           None \<Rightarrow> (Inr False, s)
         | Some cs \<Rightarrow>
             (let rq = signin_request s cs; s1 = s\<lparr>sent := sent s @ [rq]\<rparr> in
              case http e (sent s) rq of
                Inl ex \<Rightarrow> (Inr False, s1)
              | Inr response \<Rightarrow>
                  if resp_status response = 200 then
                    (case resp_text response of
                       Inl ex \<Rightarrow> (Inr False, s1)
                     | Inr xml_response \<Rightarrow>
                         (case fromstring e (PStr xml_response) of
                            Inl ex \<Rightarrow> (Inr False, s1)
                          | Inr root \<Rightarrow> (Inr True, store_credentials root s1)))
                  else (Inr False, s1))))"

definition api_request :: "client \<Rightarrow> client_session \<Rightarrow> string \<Rightarrow> string \<Rightarrow> string option \<Rightarrow> request" where
  "api_request s cs method url data =
     \<lparr>req_session = cs,
      req_method = method,
      req_url = url,
      req_data = data,
      req_headers =
        [(''X-Tableau-Auth'', auth_token s),
         (''Content-Type'',
            Some (if truthy (of_opt data) then ''application/xml'' else ''application/json''))],
      req_proxy = proxy_arg s\<rparr>"

text \<open>
  \<^verbatim>\<open>make_api_request\<close>. The lazy sign-in and \<^verbatim>\<open>urljoin\<close> stand before the \<^verbatim>\<open>try\<close>; the
  value \<^verbatim>\<open>authenticate\<close> returns is discarded. Inside the \<^verbatim>\<open>try\<close> every exception
  becomes the result \<^verbatim>\<open>None\<close>.
\<close>

definition make_api_request ::
  "env \<Rightarrow> string \<Rightarrow> string \<Rightarrow> string option \<Rightarrow> client \<Rightarrow> (exn + pyval) \<times> client" where
  "make_api_request e endpoint method data s =
     (case (if \<not> truthy (of_opt (auth_token s)) then authenticate e s else (Inr True, s)) of
        (Inl ex, s1) \<Rightarrow> (Inl ex, s1)
      | (Inr ok, s1) \<Rightarrow>
          (case urljoin e (server_url s1)
                  (''/api/3.19/sites/'' @ fmt (of_opt (site_uuid s1)) @ ''/'' @ endpoint) of
             Inl ex \<Rightarrow> (Inl ex, s1)
           | Inr url \<Rightarrow>
               (case session s1 of
                  None \<Rightarrow> (Inr PNone, s1)
                | Some cs \<Rightarrow>
                    (let rq = api_request s1 cs method url data;
                         s2 = s1\<lparr>sent := sent s1 @ [rq]\<rparr> in
                     case http e (sent s1) rq of
                       Inl ex \<Rightarrow> (Inr PNone, s2)
                     | Inr response \<Rightarrow>
                         if resp_status response = 200 \<or> resp_status response = 201 then
                           (if sublist ''xml'' (resp_content_type response) then
                              (case resp_text response of
                                 Inl ex \<Rightarrow> (Inr PNone, s2)
                               | Inr t \<Rightarrow> (Inr (PStr t), s2))
                            else
                              (case resp_json response of
                                 Inl ex \<Rightarrow> (Inr PNone, s2)
                               | Inr v \<Rightarrow> (Inr v, s2)))
                         else (Inr PNone, s2)))))"

section \<open>Catalog operations\<close>

record workbook =
  wb_id :: "string option"
  wb_name :: "string option"
  wb_description :: string
  wb_size :: string
  wb_createdAt :: "string option"
  wb_updatedAt :: "string option"
  wb_project :: "string option"
  wb_owner :: "string option"

record data_source =
  ds_id :: "string option"
  ds_name :: "string option"
  ds_description :: string
  ds_type :: "string option"
  ds_createdAt :: "string option"
  ds_updatedAt :: "string option"
  ds_project :: "string option"

record view =
  vw_id :: "string option"
  vw_name :: "string option"
  vw_contentUrl :: "string option"
  vw_viewUrlName :: "string option"

record workbook_details =
  dt_id :: "string option"
  dt_name :: "string option"
  dt_description :: string
  dt_size :: string
  dt_views :: "view list"
  dt_viewCount :: nat

text \<open>
  \<^verbatim>\<open>el.find('.//t').get('name') if el.find('.//t') is not None else 'Unknown'\<close>
\<close>

definition nested_name :: "string \<Rightarrow> xml \<Rightarrow> string option" where
  "nested_name t el =
     (case find_desc t el of None \<Rightarrow> Some ''Unknown'' | Some x \<Rightarrow> xml_get x ''name'')"

definition workbook_record :: "xml \<Rightarrow> workbook" where
  "workbook_record w =
     \<lparr>wb_id = xml_get w ''id'',
      wb_name = xml_get w ''name'',
      wb_description = xml_get_default w ''description'' [],
      wb_size = xml_get_default w ''size'' ''0'',
      wb_createdAt = xml_get w ''createdAt'',
      wb_updatedAt = xml_get w ''updatedAt'',
      wb_project = nested_name ''project'' w,
      wb_owner = nested_name ''owner'' w\<rparr>"

definition data_source_record :: "xml \<Rightarrow> data_source" where
  "data_source_record d =
     \<lparr>ds_id = xml_get d ''id'',
      ds_name = xml_get d ''name'',
      ds_description = xml_get_default d ''description'' [],
      ds_type = xml_get d ''type'',
      ds_createdAt = xml_get d ''createdAt'',
      ds_updatedAt = xml_get d ''updatedAt'',
      ds_project = nested_name ''project'' d\<rparr>"

definition view_record :: "xml \<Rightarrow> view" where
  "view_record v =
     \<lparr>vw_id = xml_get v ''id'',
      vw_name = xml_get v ''name'',
      vw_contentUrl = xml_get v ''contentUrl'',
      vw_viewUrlName = xml_get v ''viewUrlName''\<rparr>"

definition details_record :: "xml \<Rightarrow> view list \<Rightarrow> workbook_details" where
  "details_record w views =
     \<lparr>dt_id = xml_get w ''id'',
      dt_name = xml_get w ''name'',
      dt_description = xml_get_default w ''description'' [],
      dt_size = xml_get_default w ''size'' ''0'',
      dt_views = views,
      dt_viewCount = length views\<rparr>"

text \<open>
  \<^verbatim>\<open>list_workbooks\<close> and \<^verbatim>\<open>list_data_sources\<close>: a falsy payload gives the empty list
  before any parsing; \<^verbatim>\<open>except ET.ParseError\<close> catches the parser's error only, and the
  list returned then is the one built so far, which is empty since the parser runs first.
\<close>

definition list_workbooks :: "env \<Rightarrow> client \<Rightarrow> (exn + workbook list) \<times> client" where
  "list_workbooks e s =
     (case make_api_request e ''workbooks'' ''GET'' None s of
        (Inl ex, s1) \<Rightarrow> (Inl ex, s1)
      | (Inr xml_response, s1) \<Rightarrow>
          if \<not> truthy xml_response then (Inr [], s1)
          else
            (case fromstring e xml_response of
               Inl (ParseError m) \<Rightarrow> (Inr [], s1)
             | Inl ex \<Rightarrow> (Inl ex, s1)
             | Inr root \<Rightarrow> (Inr (map workbook_record (findall_desc ''workbook'' root)), s1)))"

definition list_data_sources :: "env \<Rightarrow> client \<Rightarrow> (exn + data_source list) \<times> client" where
  "list_data_sources e s =
     (case make_api_request e ''datasources'' ''GET'' None s of
        (Inl ex, s1) \<Rightarrow> (Inl ex, s1)
      | (Inr xml_response, s1) \<Rightarrow>
          if \<not> truthy xml_response then (Inr [], s1)
          else
            (case fromstring e xml_response of
               Inl (ParseError m) \<Rightarrow> (Inr [], s1)
             | Inl ex \<Rightarrow> (Inl ex, s1)
             | Inr root \<Rightarrow> (Inr (map data_source_record (findall_desc ''datasource'' root)), s1)))"

text \<open>
  \<^verbatim>\<open>get_workbook_details\<close>: the request for the views and its parsing are inside the same
  \<^verbatim>\<open>try\<close> as the parsing of the workbook, so a malformed views payload ends in
  \<^verbatim>\<open>return None\<close> as well.
\<close>

definition get_workbook_details ::
  "env \<Rightarrow> pyval \<Rightarrow> client \<Rightarrow> (exn + workbook_details option) \<times> client" where
  "get_workbook_details e workbook_id s =
     (case make_api_request e (''workbooks/'' @ fmt workbook_id) ''GET'' None s of
        (Inl ex, s1) \<Rightarrow> (Inl ex, s1)
      | (Inr xml_response, s1) \<Rightarrow>
          if \<not> truthy xml_response then (Inr None, s1)
          else
            (case fromstring e xml_response of
               Inl (ParseError m) \<Rightarrow> (Inr None, s1)
             | Inl ex \<Rightarrow> (Inl ex, s1)
             | Inr root \<Rightarrow>
                 (case find_desc ''workbook'' root of
                    None \<Rightarrow> (Inr None, s1)
                  | Some w \<Rightarrow>
                      (case make_api_request e (''workbooks/'' @ fmt workbook_id @ ''/views'')
                              ''GET'' None s1 of
                         (Inl ex, s2) \<Rightarrow> (Inl ex, s2)
                       | (Inr views_response, s2) \<Rightarrow>
                           if truthy views_response then
                             (case fromstring e views_response of
                                Inl (ParseError m) \<Rightarrow> (Inr None, s2)
                              | Inl ex \<Rightarrow> (Inl ex, s2)
                              | Inr views_root \<Rightarrow>
                                  (Inr (Some (details_record w
                                     (map view_record (findall_desc ''view'' views_root)))), s2))
                           else (Inr (Some (details_record w [])), s2)))))"

section \<open>The tool dispatcher\<close>

text \<open>
  A \<^verbatim>\<open>CallToolResult\<close>: the texts of its \<^verbatim>\<open>TextContent\<close> items and the error flag.
  The decorations of the messages are the byte sequences of the source file.
\<close>

record CallToolResult =
  content :: "string list"
  isError :: bool

definition text_result :: "string \<Rightarrow> CallToolResult" where
  "text_result t = \<lparr>content = [t], isError = False\<rparr>"

definition error_result :: "string \<Rightarrow> CallToolResult" where
  "error_result t = \<lparr>content = [t], isError = True\<rparr>"

definition mark_ok :: string where
  "mark_ok = [CHR 0xE2, CHR 0x80, CHR 0x9A, CHR 0xC3, CHR 0xBA, CHR 0xC3, CHR 0x96]"

definition mark_fail :: string where
  "mark_fail = [CHR 0xE2, CHR 0x80, CHR 0x9A, CHR 0xC3, CHR 0xB9, CHR 0xC3, CHR 0xA5]"

definition mark_workbook :: string where
  "mark_workbook =
     [CHR 0xEF, CHR 0xA3, CHR 0xBF, CHR 0xC3, CHR 0xBC, CHR 0xC3, CHR 0xAC, CHR 0xC3, CHR 0xA4]"

definition mark_datasource :: string where
  "mark_datasource =
     [CHR 0xEF, CHR 0xA3, CHR 0xBF, CHR 0xC3, CHR 0xBC, CHR 0xC3, CHR 0xB3, CHR 0xC3, CHR 0x91,
      CHR 0xC3, CHR 0x94, CHR 0xE2, CHR 0x88, CHR 0x8F, CHR 0xC3, CHR 0xA8]"

definition mark_view :: string where
  "mark_view =
     [CHR 0xEF, CHR 0xA3, CHR 0xBF, CHR 0xC3, CHR 0xBC, CHR 0xC3, CHR 0xAC, CHR 0xC3, CHR 0xA3]"

definition mark_bullet :: string where
  "mark_bullet = [CHR 0xE2, CHR 0x80, CHR 0x9A, CHR 0xC3, CHR 0x84, CHR 0xC2, CHR 0xA2]"

definition fmt_opt :: "string option \<Rightarrow> string" where
  "fmt_opt x = fmt (of_opt x)"

definition arg_get :: "(string \<rightharpoonup> pyval) \<Rightarrow> string \<Rightarrow> pyval" where
  "arg_get arguments k = (case arguments k of None \<Rightarrow> PNone | Some v \<Rightarrow> v)"

definition arg_get_default :: "(string \<rightharpoonup> pyval) \<Rightarrow> string \<Rightarrow> pyval \<Rightarrow> pyval" where
  "arg_get_default arguments k d = (case arguments k of None \<Rightarrow> d | Some v \<Rightarrow> v)"

definition connected_text :: "client \<Rightarrow> string" where
  "connected_text s =
     mark_ok @ '' Successfully connected to '' @ server_url s @ nl @
     ''Site: '' @ site_id s @ nl @
     ''Auth Token: '' @ (if truthy (of_opt (auth_token s)) then ''Present'' else ''Missing'')"

definition connect_failed_text :: string where
  "connect_failed_text =
     mark_fail @ '' Failed to connect to Tableau Server. Check your credentials and network connection.''"

definition tool_test_connection :: "env \<Rightarrow> client \<Rightarrow> (exn + CallToolResult) \<times> client" where
  "tool_test_connection e s =
     (case authenticate e s of
        (Inl ex, s1) \<Rightarrow> (Inl ex, s1)
      | (Inr success, s1) \<Rightarrow>
          if success then (Inr (text_result (connected_text s1)), s1)
          else (Inr (error_result connect_failed_text), s1))"

definition workbook_entry :: "workbook \<Rightarrow> string" where
  "workbook_entry wb =
     mark_workbook @ '' **'' @ fmt_opt (wb_name wb) @ ''**'' @ nl @
     ''   Project: '' @ fmt_opt (wb_project wb) @ nl @
     ''   Owner: '' @ fmt_opt (wb_owner wb) @ nl @
     ''   Updated: '' @ fmt_opt (wb_updatedAt wb) @ nl @
     ''   Size: '' @ wb_size wb @ '' bytes'' @ nl"

definition tool_list_workbooks :: "env \<Rightarrow> client \<Rightarrow> (exn + CallToolResult) \<times> client" where
  "tool_list_workbooks e s =
     (case list_workbooks e s of
        (Inl ex, s1) \<Rightarrow> (Inl ex, s1)
      | (Inr workbooks, s1) \<Rightarrow>
          if workbooks \<noteq> [] then
            (Inr (text_result
               (''Found '' @ str_nat (length workbooks) @ '' workbooks on tableau.nordstrom.com:'' @
                nl @ nl @ join nl (map workbook_entry workbooks))), s1)
          else (Inr (text_result ''No workbooks found or unable to retrieve workbooks.''), s1))"

definition data_source_entry :: "data_source \<Rightarrow> string" where
  "data_source_entry ds =
     mark_datasource @ '' **'' @ fmt_opt (ds_name ds) @ ''**'' @ nl @
     ''   Type: '' @ fmt_opt (ds_type ds) @ nl @
     ''   Project: '' @ fmt_opt (ds_project ds) @ nl @
     ''   Updated: '' @ fmt_opt (ds_updatedAt ds) @ nl"

definition tool_list_data_sources :: "env \<Rightarrow> client \<Rightarrow> (exn + CallToolResult) \<times> client" where
  "tool_list_data_sources e s =
     (case list_data_sources e s of
        (Inl ex, s1) \<Rightarrow> (Inl ex, s1)
      | (Inr data_sources, s1) \<Rightarrow>
          if data_sources \<noteq> [] then
            (Inr (text_result
               (''Found '' @ str_nat (length data_sources) @ '' data sources:'' @
                nl @ nl @ join nl (map data_source_entry data_sources))), s1)
          else (Inr (text_result ''No data sources found or unable to retrieve data sources.''), s1))"

text \<open>
  \<^verbatim>\<open>next((wb for wb in workbooks if wb['name'].lower() == workbook_name.lower()), None)\<close>:
  the workbooks are tried in list order, the left operand is evaluated first, and
  \<^verbatim>\<open>.lower()\<close> raises on a name that is \<^verbatim>\<open>None\<close> and on an argument that is no string.
\<close>

fun first_match :: "pyval \<Rightarrow> workbook list \<Rightarrow> exn + workbook option" where
  "first_match workbook_name [] = Inr None"
| "first_match workbook_name (wb # wbs) =
     (case py_lower (of_opt (wb_name wb)) of
        Inl ex \<Rightarrow> Inl ex
      | Inr n \<Rightarrow>
          (case py_lower workbook_name of
             Inl ex \<Rightarrow> Inl ex
           | Inr w \<Rightarrow> if n = w then Inr (Some wb) else first_match workbook_name wbs))"

definition details_text :: "workbook_details \<Rightarrow> string" where
  "details_text d =
     mark_workbook @ '' **Workbook Details: '' @ fmt_opt (dt_name d) @ ''**'' @ nl @ nl @
     ''**Worksheets & Dashboards ('' @ str_nat (dt_viewCount d) @ ''):**'' @ nl @
     join nl (map (\<lambda>v. ''   '' @ mark_view @ '' '' @ fmt_opt (vw_name v)) (dt_views d)) @ nl @ nl @
     ''**Size:** '' @ dt_size d @ '' bytes'' @ nl @
     ''**Description:** '' @ dt_description d"

definition not_found_text :: "pyval \<Rightarrow> string" where
  "not_found_text workbook_name =
     mark_fail @ '' Workbook '' @ sq @ fmt workbook_name @ sq @ '' not found.''"

text \<open>The statement \<^verbatim>\<open>if workbook_id: ... else: ...\<close> that ends the branch.\<close>

definition details_by_id :: "env \<Rightarrow> pyval \<Rightarrow> client \<Rightarrow> (exn + CallToolResult) \<times> client" where
  "details_by_id e workbook_id s =
     (if truthy workbook_id then
        (case get_workbook_details e workbook_id s of
           (Inl ex, s1) \<Rightarrow> (Inl ex, s1)
         | (Inr None, s1) \<Rightarrow>
             (Inr (error_result (mark_fail @ '' Unable to retrieve workbook details.'')), s1)
         | (Inr (Some details), s1) \<Rightarrow> (Inr (text_result (details_text details)), s1))
      else
        (Inr (error_result (mark_fail @ '' Please provide either workbook_name or workbook_id.'')), s))"

definition tool_get_workbook_details ::
  "env \<Rightarrow> (string \<rightharpoonup> pyval) \<Rightarrow> client \<Rightarrow> (exn + CallToolResult) \<times> client" where
  "tool_get_workbook_details e arguments s =
     (let workbook_name = arg_get arguments ''workbook_name'';
          workbook_id = arg_get arguments ''workbook_id'' in
      if truthy workbook_name \<and> \<not> truthy workbook_id then
        (case list_workbooks e s of
           (Inl ex, s1) \<Rightarrow> (Inl ex, s1)
         | (Inr workbooks, s1) \<Rightarrow>
             (case first_match workbook_name workbooks of
                Inl ex \<Rightarrow> (Inl ex, s1)
              | Inr None \<Rightarrow> (Inr (error_result (not_found_text workbook_name)), s1)
              | Inr (Some matching_workbook) \<Rightarrow>
                  details_by_id e (of_opt (wb_id matching_workbook)) s1))
      else details_by_id e workbook_id s)"

text \<open>A list comprehension whose condition may raise: the first exception ends it.\<close>

fun filter_raise :: "('a \<Rightarrow> exn + bool) \<Rightarrow> 'a list \<Rightarrow> exn + 'a list" where
  "filter_raise p [] = Inr []"
| "filter_raise p (x # xs) =
     (case p x of
        Inl ex \<Rightarrow> Inl ex
      | Inr b \<Rightarrow>
          (case filter_raise p xs of
             Inl ex \<Rightarrow> Inl ex
           | Inr ys \<Rightarrow> Inr (if b then x # ys else ys)))"

definition workbook_matches :: "string \<Rightarrow> workbook \<Rightarrow> exn + bool" where
  "workbook_matches query wb =
     (case py_lower (of_opt (wb_name wb)) of
        Inl ex \<Rightarrow> Inl ex
      | Inr n \<Rightarrow> Inr (sublist query n \<or> sublist query (lower (wb_description wb))))"

definition data_source_matches :: "string \<Rightarrow> data_source \<Rightarrow> exn + bool" where
  "data_source_matches query ds =
     (case py_lower (of_opt (ds_name ds)) of
        Inl ex \<Rightarrow> Inl ex
      | Inr n \<Rightarrow> Inr (sublist query n \<or> sublist query (lower (ds_description ds))))"

definition no_content_text :: "string \<Rightarrow> string" where
  "no_content_text query = ''No content found matching '' @ sq @ query @ sq"

definition workbook_hit :: "workbook \<Rightarrow> string" where
  "workbook_hit wb =
     ''   '' @ mark_bullet @ '' '' @ fmt_opt (wb_name wb) @
     '' (Project: '' @ fmt_opt (wb_project wb) @ '')''"

definition data_source_hit :: "data_source \<Rightarrow> string" where
  "data_source_hit ds =
     ''   '' @ mark_bullet @ '' '' @ fmt_opt (ds_name ds) @
     '' (Type: '' @ fmt_opt (ds_type ds) @ '')''"

definition search_results :: "string \<Rightarrow> workbook list \<Rightarrow> data_source list \<Rightarrow> string list" where
  "search_results query matching_workbooks matching_data_sources =
     (if matching_workbooks \<noteq> [] then
        (''**'' @ mark_workbook @ '' Workbooks matching '' @ sq @ query @ sq @ '':**'') #
        map workbook_hit matching_workbooks
      else []) @
     (if matching_data_sources \<noteq> [] then
        (nl @ ''**'' @ mark_datasource @ '' Data Sources matching '' @ sq @ query @ sq @ '':**'') #
        map data_source_hit matching_data_sources
      else []) @
     (if matching_workbooks = [] \<and> matching_data_sources = [] then [no_content_text query]
      else [])"

definition tool_search_content ::
  "env \<Rightarrow> (string \<rightharpoonup> pyval) \<Rightarrow> client \<Rightarrow> (exn + CallToolResult) \<times> client" where
  "tool_search_content e arguments s =
     (case py_lower (arg_get_default arguments ''query'' (PStr [])) of
        Inl ex \<Rightarrow> (Inl ex, s)
      | Inr query \<Rightarrow>
          (case list_workbooks e s of
             (Inl ex, s1) \<Rightarrow> (Inl ex, s1)
           | (Inr workbooks, s1) \<Rightarrow>
               (case list_data_sources e s1 of
                  (Inl ex, s2) \<Rightarrow> (Inl ex, s2)
                | (Inr data_sources, s2) \<Rightarrow>
                    (case filter_raise (workbook_matches query) workbooks of
                       Inl ex \<Rightarrow> (Inl ex, s2)
                     | Inr matching_workbooks \<Rightarrow>
                         (case filter_raise (data_source_matches query) data_sources of
                            Inl ex \<Rightarrow> (Inl ex, s2)
                          | Inr matching_data_sources \<Rightarrow>
                              (Inr (text_result (join nl
                                 (search_results query matching_workbooks matching_data_sources))),
                               s2))))))"

text \<open>
  The body of the \<^verbatim>\<open>try\<close> of \<^verbatim>\<open>handle_call_tool\<close>, and the handler with its
  \<^verbatim>\<open>except Exception\<close>, which turns whatever the body raised into an error result.
\<close>

definition handle_call_tool_try ::
  "env \<Rightarrow> string \<Rightarrow> (string \<rightharpoonup> pyval) \<Rightarrow> client \<Rightarrow> (exn + CallToolResult) \<times> client" where
  "handle_call_tool_try e name arguments s =
     (let s0 = (if session s = None then initialize_session s else s) in
      if name = ''test_connection'' then tool_test_connection e s0
      else if name = ''list_workbooks'' then tool_list_workbooks e s0
      else if name = ''list_data_sources'' then tool_list_data_sources e s0
      else if name = ''get_workbook_details'' then tool_get_workbook_details e arguments s0
      else if name = ''search_content'' then tool_search_content e arguments s0
      else (Inr (error_result (''Unknown tool: '' @ name)), s0))"

definition handle_call_tool ::
  "env \<Rightarrow> string \<Rightarrow> (string \<rightharpoonup> pyval) \<Rightarrow> client \<Rightarrow> (exn + CallToolResult) \<times> client" where
  "handle_call_tool e name arguments s =
     (case handle_call_tool_try e name arguments s of
        (Inl ex, s1) \<Rightarrow>
          (Inr (error_result (''Error executing '' @ name @ '': '' @ str_exn ex)), s1)
      | (Inr r, s1) \<Rightarrow> (Inr r, s1))"

section \<open>Concrete scenarios\<close>

text \<open>
  A client as \<^verbatim>\<open>__init__\<close> leaves it, with a credential pair in the environment, and
  a server given by two tables: \<open>pages\<close> maps a URL to the body it answers with (status
  200, content type \<^verbatim>\<open>application/xml\<close>; any other URL fails at the transport), and
  \<open>docs\<close> maps a body to the element tree the parser yields for it (any other body is
  malformed).
\<close>

definition demo_client :: client where
  "demo_client =
     \<lparr>server_url = ''https://srv'', site_id = ''site'', token_name = Some ''pat'',
      token_value = Some ''secret'', proxy_url = [], no_proxy = ''localhost,127.0.0.1'',
      auth_token = None, site_uuid = None, session = None, sent = []\<rparr>"

definition demo_env :: "(string \<times> string) list \<Rightarrow> (string \<times> xml) list \<Rightarrow> env" where
  "demo_env pages docs =
     \<lparr>http = (\<lambda>log rq.
        case map_of pages (req_url rq) of
          None \<Rightarrow> Inl (OtherError ''connection refused'')
        | Some body \<Rightarrow>
            Inr \<lparr>resp_status = 200, resp_content_type = ''application/xml'',
                 resp_text = Inr body, resp_json = Inl (OtherError ''not json'')\<rparr>),
      fromstring = (\<lambda>v.
        case v of
          PStr t \<Rightarrow>
            (case map_of docs t of None \<Rightarrow> Inl (ParseError ''syntax error'') | Some x \<Rightarrow> Inr x)
        | _ \<Rightarrow> Inl (TypeError ''not a string'')),
      urljoin = (\<lambda>b p. Inr (b @ p))\<rparr>"

definition signin_page :: "string \<times> string" where
  "signin_page = (''https://srv/api/3.19/auth/signin'', ''signin T1 S1'')"

definition signin_doc :: "string \<times> xml" where
  "signin_doc =
     (''signin T1 S1'',
      Element ''tsResponse'' []
        [Element ''credentials'' [(''token'', ''T1'')] [Element ''site'' [(''id'', ''S1'')] []]])"

definition orders_page :: "string \<times> string" where
  "orders_page = (''https://srv/api/3.19/sites/S1/workbooks'', ''one workbook'')"

definition orders_doc :: "string \<times> xml" where
  "orders_doc =
     (''one workbook'',
      Element ''tsResponse'' []
        [Element ''workbooks'' []
           [Element ''workbook'' [(''id'', ''wb1''), (''name'', ''Orders'')] []]])"



text \<open>
  The invariant of the specification: a session has either both the auth token and the
  site UUID set, or neither.
\<close>

definition auth_all_or_nothing :: "client \<Rightarrow> bool" where
  "auth_all_or_nothing s = ((auth_token s = None) = (site_uuid s = None))"

text \<open>
  Sign-in answers that parse but are incomplete: a \<^verbatim>\<open>credentials\<close> element with a token
  and no \<^verbatim>\<open>site\<close> child, and a response with no \<^verbatim>\<open>credentials\<close> element at all.
\<close>

definition token_only_doc :: "string \<times> xml" where
  "token_only_doc =
     (''signin T1 S1'',
      Element ''tsResponse'' [] [Element ''credentials'' [(''token'', ''T1'')] []])"

definition bare_doc :: "string \<times> xml" where
  "bare_doc = (''signin T1 S1'', Element ''tsResponse'' [] [])"

text \<open>
  A catalog of two workbooks, \<^verbatim>\<open>Sales Report\<close> and \<^verbatim>\<open>sales report copy\<close>; the workbook
  \<^verbatim>\<open>wb1\<close> as the server describes it, once with timestamps, project and owner and once
  without; and its one view.
\<close>

definition catalog_page :: "string \<times> string" where
  "catalog_page = (''https://srv/api/3.19/sites/S1/workbooks'', ''catalog'')"

definition catalog_doc :: "string \<times> xml" where
  "catalog_doc =
     (''catalog'',
      Element ''tsResponse'' []
        [Element ''workbooks'' []
           [Element ''workbook'' [(''id'', ''wb1''), (''name'', ''Sales Report'')] [],
            Element ''workbook'' [(''id'', ''wb2''), (''name'', ''sales report copy'')] []]])"

definition wb1_page :: "string \<times> string" where
  "wb1_page = (''https://srv/api/3.19/sites/S1/workbooks/wb1'', ''workbook wb1'')"

definition wb1_full :: xml where
  "wb1_full =
     Element ''workbook''
       [(''id'', ''wb1''), (''name'', ''Sales Report''), (''createdAt'', ''2024-01-01''),
        (''updatedAt'', ''2024-02-02'')]
       [Element ''project'' [(''name'', ''Finance'')] [], Element ''owner'' [(''name'', ''alice'')] []]"

definition wb1_bare :: xml where
  "wb1_bare = Element ''workbook'' [(''id'', ''wb1''), (''name'', ''Sales Report'')] []"

definition wb1_doc :: "xml \<Rightarrow> string \<times> xml" where
  "wb1_doc w = (''workbook wb1'', Element ''tsResponse'' [] [w])"

definition views_page :: "string \<times> string" where
  "views_page = (''https://srv/api/3.19/sites/S1/workbooks/wb1/views'', ''views wb1'')"

definition views_doc :: "string \<times> xml" where
  "views_doc =
     (''views wb1'',
      Element ''tsResponse'' []
        [Element ''views'' []
           [Element ''view''
              [(''id'', ''v1''), (''name'', ''Overview''), (''contentUrl'', ''Sales/sheets/Overview''),
               (''viewUrlName'', ''Overview'')] []]])"

definition details_env :: "xml \<Rightarrow> env" where
  "details_env w =
     demo_env [signin_page, catalog_page, wb1_page, views_page]
       [signin_doc, catalog_doc, wb1_doc w, views_doc]"

text \<open>
  The words of the specification for the two searches of the dispatcher: a text contains
  a query case-insensitively; a workbook has the given name, case-insensitively and
  exactly; a workbook or a data source is found by a query when its name or its
  description contains it.
\<close>

definition contains_ci :: "string \<Rightarrow> string \<Rightarrow> bool" where
  "contains_ci query t = sublist (lower query) (lower t)"

definition same_name :: "string \<Rightarrow> workbook \<Rightarrow> bool" where
  "same_name w wb = (case wb_name wb of None \<Rightarrow> False | Some n \<Rightarrow> lower n = lower w)"

definition workbook_found :: "string \<Rightarrow> workbook \<Rightarrow> bool" where
  "workbook_found query wb =
     ((case wb_name wb of None \<Rightarrow> False | Some n \<Rightarrow> contains_ci query n) \<or>
      contains_ci query (wb_description wb))"

definition data_source_found :: "string \<Rightarrow> data_source \<Rightarrow> bool" where
  "data_source_found query ds =
     ((case ds_name ds of None \<Rightarrow> False | Some n \<Rightarrow> contains_ci query n) \<or>
      contains_ci query (ds_description ds))"

text \<open>
  The two records of the catalog above; a catalog whose first workbook has no name and a
  description that mentions sales; and one data source.
\<close>

definition sales_report :: workbook where
  "sales_report =
     \<lparr>wb_id = Some ''wb1'', wb_name = Some ''Sales Report'', wb_description = [],
      wb_size = ''0'', wb_createdAt = None, wb_updatedAt = None,
      wb_project = Some ''Unknown'', wb_owner = Some ''Unknown''\<rparr>"

definition sales_report_copy :: workbook where
  "sales_report_copy =
     \<lparr>wb_id = Some ''wb2'', wb_name = Some ''sales report copy'', wb_description = [],
      wb_size = ''0'', wb_createdAt = None, wb_updatedAt = None,
      wb_project = Some ''Unknown'', wb_owner = Some ''Unknown''\<rparr>"

definition nameless_page :: "string \<times> string" where
  "nameless_page = (''https://srv/api/3.19/sites/S1/workbooks'', ''nameless first'')"

definition nameless_doc :: "string \<times> xml" where
  "nameless_doc =
     (''nameless first'',
      Element ''tsResponse'' []
        [Element ''workbooks'' []
           [Element ''workbook'' [(''id'', ''wb0''), (''description'', ''Sales figures'')] [],
            Element ''workbook'' [(''id'', ''wb1''), (''name'', ''Sales Report'')] []]])"

definition nameless_env :: env where
  "nameless_env = demo_env [signin_page, nameless_page] [signin_doc, nameless_doc]"

definition sources_page :: "string \<times> string" where
  "sources_page = (''https://srv/api/3.19/sites/S1/datasources'', ''sources'')"

definition sources_doc :: "string \<times> xml" where
  "sources_doc =
     (''sources'',
      Element ''tsResponse'' []
        [Element ''datasources'' []
           [Element ''datasource''
              [(''id'', ''ds1''), (''name'', ''Warehouse''), (''description'', ''Daily sales feed''),
               (''type'', ''sqlserver'')] []]])"

definition warehouse :: data_source where
  "warehouse =
     \<lparr>ds_id = Some ''ds1'', ds_name = Some ''Warehouse'', ds_description = ''Daily sales feed'',
      ds_type = Some ''sqlserver'', ds_createdAt = None, ds_updatedAt = None,
      ds_project = Some ''Unknown''\<rparr>"

definition search_env :: env where
  "search_env =
     demo_env [signin_page, catalog_page, sources_page] [signin_doc, catalog_doc, sources_doc]"

text \<open>
  A \<^verbatim>\<open>credentials\<close> element is consistent when it has a \<^verbatim>\<open>site\<close> child and has a
  \<^verbatim>\<open>token\<close> attribute exactly when that child has an \<^verbatim>\<open>id\<close> attribute; an element that
  carries both is. The server answers sign-in requests consistently when, whenever such
  an answer has status 200 and a body that parses, a \<^verbatim>\<open>credentials\<close> element below its
  root is consistent.
\<close>

definition consistent_credentials :: "xml \<Rightarrow> bool" where
  "consistent_credentials c =
     (case find_child ''site'' c of
        None \<Rightarrow> False
      | Some site \<Rightarrow> (xml_get c ''token'' = None) = (xml_get site ''id'' = None))"

definition consistent_sign_ins :: "env \<Rightarrow> bool" where
  "consistent_sign_ins e =
     (\<forall>log s cs resp body root c.
        http e log (signin_request s cs) = Inr resp \<and> resp_status resp = 200 \<and>
        resp_text resp = Inr body \<and> fromstring e (PStr body) = Inr root \<and>
        find_desc ''credentials'' root = Some c \<longrightarrow>
          consistent_credentials c)"




text \<open>
  A server that answers every request but the sign-in with status 200, content type
  \<^verbatim>\<open>application/json\<close> and a body that decodes to a non-empty list; a server whose
  answer for the views of \<^verbatim>\<open>wb1\<close> is malformed; and one whose answer for them is that
  JSON list.
\<close>

definition json_answer :: http_response where
  "json_answer =
     \<lparr>resp_status = 200, resp_content_type = ''application/json'', resp_text = Inr ''[1]'',
      resp_json = Inr (POther ''list'' True ''[1]'')\<rparr>"

definition json_env :: env where
  "json_env =
     \<lparr>http = (\<lambda>log rq.
        if req_url rq = fst signin_page then http (demo_env [signin_page] [signin_doc]) log rq
        else Inr json_answer),
      fromstring = fromstring (demo_env [signin_page] [signin_doc]),
      urljoin = urljoin (demo_env [signin_page] [signin_doc])\<rparr>"

definition garbled_views_page :: "string \<times> string" where
  "garbled_views_page =
     (''https://srv/api/3.19/sites/S1/workbooks/wb1/views'', ''<tsResponse><view'')"

definition garbled_views_env :: env where
  "garbled_views_env =
     demo_env [signin_page, wb1_page, garbled_views_page] [signin_doc, wb1_doc wb1_bare]"

definition json_views_env :: env where
  "json_views_env =
     \<lparr>http = (\<lambda>log rq.
        if req_url rq = fst views_page then Inr json_answer
        else http (details_env wb1_bare) log rq),
      fromstring = fromstring (details_env wb1_bare),
      urljoin = urljoin (details_env wb1_bare)\<rparr>"

section \<open>The credential check of the sign-in\<close>

text \<open>
  Claim C7. Whenever the stored credential pair is absent, the token name or the token
  secret being unset (\<^verbatim>\<open>None\<close>, or empty, which the test \<^verbatim>\<open>not self.token_name\<close> treats
  alike), \<^verbatim>\<open>authenticate\<close> raises the \<^verbatim>\<open>ValueError\<close> the specification calls
  ConfigurationError: the exception leaves the method, and the client it leaves behind is
  the one it found, so no sign-in request was issued (\<open>sent\<close> has not grown).
\<close>

theorem authenticate_without_credentials:
  assumes "token_name s = None \<or> token_name s = Some [] \<or>
           token_value s = None \<or> token_value s = Some []"
  shows "authenticate e s = (Inl missing_credentials_error, s)"
proof -
  from assms have "credentials_missing s"
    by (auto simp: credentials_missing_def)
  then show ?thesis
    by (simp add: authenticate_def)
qed

theorem authenticate_without_credentials_witness:
  "authenticate (demo_env [signin_page] [signin_doc]) (demo_client\<lparr>token_value := None\<rparr>) =
     (Inl (ValueError ''TABLEAU_TOKEN_NAME and TABLEAU_TOKEN_VALUE must be set in .env file''),
      demo_client\<lparr>token_value := None\<rparr>) \<and>
   sent (snd (authenticate (demo_env [signin_page] [signin_doc])
     (demo_client\<lparr>token_value := None\<rparr>))) = []"
  using authenticate_without_credentials
    [of "demo_client\<lparr>token_value := None\<rparr>" "demo_env [signin_page] [signin_doc]"]
  by (simp add: missing_credentials_error_def demo_client_def)

section \<open>The tool boundary\<close>

text \<open>Every result a tool builds carries exactly one text.\<close>

lemma tool_test_connection_text:
  "tool_test_connection e s = (Inr r, s1) \<Longrightarrow> \<exists>t. content r = [t]"
  by (auto simp: tool_test_connection_def text_result_def error_result_def
      split: prod.splits sum.splits if_splits)

lemma tool_list_workbooks_text:
  "tool_list_workbooks e s = (Inr r, s1) \<Longrightarrow> \<exists>t. content r = [t]"
  by (auto simp: tool_list_workbooks_def text_result_def error_result_def
      split: prod.splits sum.splits if_splits)

lemma tool_list_data_sources_text:
  "tool_list_data_sources e s = (Inr r, s1) \<Longrightarrow> \<exists>t. content r = [t]"
  by (auto simp: tool_list_data_sources_def text_result_def error_result_def
      split: prod.splits sum.splits if_splits)

lemma details_by_id_text:
  "details_by_id e i s = (Inr r, s1) \<Longrightarrow> \<exists>t. content r = [t]"
  by (auto simp: details_by_id_def text_result_def error_result_def
      split: prod.splits sum.splits if_splits option.splits)

lemma tool_get_workbook_details_text:
  "tool_get_workbook_details e a s = (Inr r, s1) \<Longrightarrow> \<exists>t. content r = [t]"
  by (auto simp: tool_get_workbook_details_def Let_def error_result_def
      dest: details_by_id_text split: prod.splits sum.splits if_splits option.splits)

lemma tool_search_content_text:
  "tool_search_content e a s = (Inr r, s1) \<Longrightarrow> \<exists>t. content r = [t]"
  by (auto simp: tool_search_content_def text_result_def
      split: prod.splits sum.splits if_splits)

lemma handle_call_tool_try_text:
  "handle_call_tool_try e name a s = (Inr r, s1) \<Longrightarrow> \<exists>t. content r = [t]"
  by (auto simp: handle_call_tool_try_def Let_def error_result_def
      dest: tool_test_connection_text tool_list_workbooks_text tool_list_data_sources_text
        tool_get_workbook_details_text tool_search_content_text
      split: if_splits)

text \<open>
  Claim C2. For every tool name, every argument dictionary, every client and every
  behaviour of the network and the libraries, \<^verbatim>\<open>handle_call_tool\<close> returns: its value is
  a result with exactly one text, plain or flagged as an error, and never an exception.
  Whatever the body of its \<^verbatim>\<open>try\<close> raises is turned into a flagged result by the handler.
\<close>

theorem handle_call_tool_never_raises:
  "\<exists>t b s1. handle_call_tool e name arguments s = (Inr \<lparr>content = [t], isError = b\<rparr>, s1)"
proof (cases "handle_call_tool_try e name arguments s")
  case (Pair r s1)
  show ?thesis
  proof (cases r)
    case (Inl ex)
    with Pair show ?thesis
      by (auto simp: handle_call_tool_def error_result_def)
  next
    case (Inr res)
    with Pair obtain t where "content res = [t]"
      using handle_call_tool_try_text by blast
    then have "res = \<lparr>content = [t], isError = isError res\<rparr>"
      by (cases res) simp
    with Pair Inr show ?thesis
      by (simp add: handle_call_tool_def) metis
  qed
qed

section \<open>The catalog lists\<close>

text \<open>The definitions that evaluate a call at the concrete scenarios.\<close>

lemmas demo_simps =
  demo_env_def demo_client_def signin_page_def signin_doc_def
  initialize_session_def authenticate_def make_api_request_def credentials_missing_def
  signin_request_def api_request_def store_credentials_def proxy_arg_def
  find_desc_def findall_desc_def find_child_def xml_get_def xml_get_default_def
  sublist_Cons_right Let_def

text \<open>
  Claim C3. When the workbooks request yields a payload that parses to \<open>root\<close>,
  \<^verbatim>\<open>list_workbooks\<close> returns one record per \<^verbatim>\<open>workbook\<close> element below the root, in
  document order, and for every element \<open>w\<close>: a missing \<^verbatim>\<open>description\<close> attribute
  gives the empty string, a missing \<^verbatim>\<open>size\<close> attribute gives \<^verbatim>\<open>'0'\<close>, a missing nested
  \<^verbatim>\<open>project\<close> or \<^verbatim>\<open>owner\<close> element gives \<^verbatim>\<open>'Unknown'\<close>. In particular a response
  whose only workbook element has just \<^verbatim>\<open>id="wb1"\<close> and \<^verbatim>\<open>name="Orders"\<close> gives exactly one
  record, with id \<^verbatim>\<open>wb1\<close>, name \<^verbatim>\<open>Orders\<close>, project and owner \<^verbatim>\<open>Unknown\<close>, size \<^verbatim>\<open>0\<close>
  and an empty description (its two timestamps, which the claim does not list, are
  \<^verbatim>\<open>None\<close>).
\<close>

theorem list_workbooks_defaults:
  assumes "make_api_request e ''workbooks'' ''GET'' None s = (Inr p, s1)"
    and "truthy p"
    and "fromstring e p = Inr root"
  shows "list_workbooks e s = (Inr (map workbook_record (findall_desc ''workbook'' root)), s1) \<and>
     (xml_get w ''description'' = None \<longrightarrow> wb_description (workbook_record w) = []) \<and>
     (xml_get w ''size'' = None \<longrightarrow> wb_size (workbook_record w) = ''0'') \<and>
     (find_desc ''project'' w = None \<longrightarrow> wb_project (workbook_record w) = Some ''Unknown'') \<and>
     (find_desc ''owner'' w = None \<longrightarrow> wb_owner (workbook_record w) = Some ''Unknown'') \<and>
     (findall_desc ''workbook'' root =
        [Element ''workbook'' [(''id'', ''wb1''), (''name'', ''Orders'')] []] \<longrightarrow>
      list_workbooks e s =
        (Inr [\<lparr>wb_id = Some ''wb1'', wb_name = Some ''Orders'', wb_description = [],
               wb_size = ''0'', wb_createdAt = None, wb_updatedAt = None,
               wb_project = Some ''Unknown'', wb_owner = Some ''Unknown''\<rparr>], s1))"
proof -
  have l: "list_workbooks e s = (Inr (map workbook_record (findall_desc ''workbook'' root)), s1)"
    using assms by (simp add: list_workbooks_def)
  have r: "workbook_record (Element ''workbook'' [(''id'', ''wb1''), (''name'', ''Orders'')] []) =
      \<lparr>wb_id = Some ''wb1'', wb_name = Some ''Orders'', wb_description = [],
       wb_size = ''0'', wb_createdAt = None, wb_updatedAt = None,
       wb_project = Some ''Unknown'', wb_owner = Some ''Unknown''\<rparr>"
    by (simp add: workbook_record_def xml_get_def xml_get_default_def nested_name_def
        find_desc_def findall_desc_def)
  show ?thesis
    using l r
    by (simp add: workbook_record_def xml_get_def xml_get_default_def nested_name_def)
qed

theorem list_workbooks_defaults_witness:
  "fst (list_workbooks (demo_env [signin_page, orders_page] [signin_doc, orders_doc])
         (initialize_session demo_client)) =
     Inr [\<lparr>wb_id = Some ''wb1'', wb_name = Some ''Orders'', wb_description = [],
            wb_size = ''0'', wb_createdAt = None, wb_updatedAt = None,
            wb_project = Some ''Unknown'', wb_owner = Some ''Unknown''\<rparr>]"
proof -
  let ?e = "demo_env [signin_page, orders_page] [signin_doc, orders_doc]"
  let ?s = "initialize_session demo_client"
  let ?w = "Element ''workbook'' [(''id'', ''wb1''), (''name'', ''Orders'')] []"
  have "fst (make_api_request ?e ''workbooks'' ''GET'' None ?s) = Inr (PStr ''one workbook'')"
    by (simp add: demo_simps orders_page_def orders_doc_def)
  then have a: "make_api_request ?e ''workbooks'' ''GET'' None ?s =
      (Inr (PStr ''one workbook''), snd (make_api_request ?e ''workbooks'' ''GET'' None ?s))"
    by (metis prod.collapse)
  have b: "truthy (PStr ''one workbook'')"
    by simp
  have c: "fromstring ?e (PStr ''one workbook'') = Inr (snd orders_doc)"
    by (simp add: demo_simps orders_page_def orders_doc_def)
  have d: "findall_desc ''workbook'' (snd orders_doc) = [?w]"
    by (simp add: orders_doc_def findall_desc_def)
  have e: "xml_get ?w ''description'' = None" "xml_get ?w ''size'' = None"
    "find_desc ''project'' ?w = None" "find_desc ''owner'' ?w = None"
    by (simp_all add: xml_get_def find_desc_def findall_desc_def)
  from list_workbooks_defaults [OF a b c, of ?w] d e
  have "list_workbooks ?e ?s =
      (Inr [\<lparr>wb_id = Some ''wb1'', wb_name = Some ''Orders'', wb_description = [],
             wb_size = ''0'', wb_createdAt = None, wb_updatedAt = None,
             wb_project = Some ''Unknown'', wb_owner = Some ''Unknown''\<rparr>],
       snd (make_api_request ?e ''workbooks'' ''GET'' None ?s))"
    by blast
  then show ?thesis by simp
qed

section \<open>The sign-in\<close>

lemma store_credentials_frame:
  "server_url (store_credentials root s) = server_url s"
  "site_id (store_credentials root s) = site_id s"
  "session (store_credentials root s) = session s"
  "sent (store_credentials root s) = sent s"
  by (simp_all add: store_credentials_def Let_def split: option.splits)

lemma authenticate_signed_in:
  assumes "\<not> credentials_missing s" and "session s = Some cs"
    and "http e (sent s) (signin_request s cs) = Inr resp"
    and "resp_status resp = 200" and "resp_text resp = Inr body"
    and "fromstring e (PStr body) = Inr root"
  shows "authenticate e s =
     (Inr True, store_credentials root (s\<lparr>sent := sent s @ [signin_request s cs]\<rparr>))"
  using assms by (simp add: authenticate_def Let_def)

lemma authenticate_cases:
  assumes "authenticate e s = (r, s')"
  shows "(r \<noteq> Inr True \<and> auth_token s' = auth_token s \<and> site_uuid s' = site_uuid s) \<or>
    (r = Inr True \<and> (\<exists>cs resp body root. session s = Some cs \<and>
       http e (sent s) (signin_request s cs) = Inr resp \<and> resp_status resp = 200 \<and>
       resp_text resp = Inr body \<and> fromstring e (PStr body) = Inr root \<and>
       s' = store_credentials root (s\<lparr>sent := sent s @ [signin_request s cs]\<rparr>)))"
  using assms
  by (auto simp: authenticate_def Let_def split: if_splits option.splits sum.splits)

text \<open>
  What \<^verbatim>\<open>authenticate\<close> does to the token and the site UUID of a session that has both
  or neither. If it does not return \<^verbatim>\<open>True\<close> (it raised or returned \<^verbatim>\<open>False\<close>), they are
  what they were. If it returns \<^verbatim>\<open>True\<close>, the response had status 200 and a body that
  parsed; without a \<^verbatim>\<open>credentials\<close> element below the root they are again unchanged; with
  one, the token is its \<^verbatim>\<open>token\<close> attribute and the UUID is the \<^verbatim>\<open>id\<close> attribute of its
  \<^verbatim>\<open>site\<close> child (unchanged when there is no such child), each set or unset on its own.
\<close>

lemma authenticate_token_and_uuid:
  assumes "auth_all_or_nothing s" and "authenticate e s = (r, s')"
  shows "(r \<noteq> Inr True \<longrightarrow>
       auth_token s' = auth_token s \<and> site_uuid s' = site_uuid s \<and> auth_all_or_nothing s') \<and>
     (r = Inr True \<longrightarrow>
       (\<exists>cs resp body root. session s = Some cs \<and>
          http e (sent s) (signin_request s cs) = Inr resp \<and> resp_status resp = 200 \<and>
          resp_text resp = Inr body \<and> fromstring e (PStr body) = Inr root \<and>
          (case find_desc ''credentials'' root of
             None \<Rightarrow>
               auth_token s' = auth_token s \<and> site_uuid s' = site_uuid s \<and>
               auth_all_or_nothing s'
           | Some c \<Rightarrow>
               auth_token s' = xml_get c ''token'' \<and>
               site_uuid s' =
                 (case find_child ''site'' c of
                    None \<Rightarrow> site_uuid s
                  | Some site \<Rightarrow> xml_get site ''id'') \<and>
               (xml_get c ''token'' \<noteq> None \<and>
                (\<exists>site. find_child ''site'' c = Some site \<and> xml_get site ''id'' \<noteq> None) \<longrightarrow>
                  auth_all_or_nothing s'))))"
proof -
  from authenticate_cases [OF assms(2)]
  consider
    (failed) "r \<noteq> Inr True" "auth_token s' = auth_token s" "site_uuid s' = site_uuid s"
  | (signed_in) cs resp body root where "r = Inr True" "session s = Some cs"
      "http e (sent s) (signin_request s cs) = Inr resp" "resp_status resp = 200"
      "resp_text resp = Inr body" "fromstring e (PStr body) = Inr root"
      "s' = store_credentials root (s\<lparr>sent := sent s @ [signin_request s cs]\<rparr>)"
    by blast
  then show ?thesis
  proof cases
    case failed
    with assms(1) show ?thesis
      by (simp add: auth_all_or_nothing_def)
  next
    case signed_in
    have "case find_desc ''credentials'' root of
             None \<Rightarrow>
               auth_token s' = auth_token s \<and> site_uuid s' = site_uuid s \<and>
               auth_all_or_nothing s'
           | Some c \<Rightarrow>
               auth_token s' = xml_get c ''token'' \<and>
               site_uuid s' =
                 (case find_child ''site'' c of
                    None \<Rightarrow> site_uuid s
                  | Some site \<Rightarrow> xml_get site ''id'') \<and>
               (xml_get c ''token'' \<noteq> None \<and>
                (\<exists>site. find_child ''site'' c = Some site \<and> xml_get site ''id'' \<noteq> None) \<longrightarrow>
                  auth_all_or_nothing s')"
      using assms(1) signed_in(7)
      by (auto simp: store_credentials_def auth_all_or_nothing_def Let_def split: option.splits)
    with signed_in show ?thesis
      by blast
  qed
qed

lemma store_credentials_consistent:
  assumes "find_desc ''credentials'' root = None \<or>
      (\<exists>c. find_desc ''credentials'' root = Some c \<and> consistent_credentials c)"
    and "auth_all_or_nothing s"
  shows "auth_all_or_nothing (store_credentials root s)"
  using assms
  by (auto simp: store_credentials_def consistent_credentials_def auth_all_or_nothing_def Let_def
      split: option.splits)

text \<open>
  The condition is exact: a \<^verbatim>\<open>credentials\<close> element that is not consistent takes some
  session that has both or neither of token and UUID set to one that has only one of them.
\<close>

lemma store_credentials_inconsistent:
  assumes "find_desc ''credentials'' root = Some c" and "\<not> consistent_credentials c"
  shows "\<exists>s. auth_all_or_nothing s \<and> \<not> auth_all_or_nothing (store_credentials root s)"
proof (cases "xml_get c ''token''")
  case None
  let ?s = "demo_client\<lparr>auth_token := Some ''T0'', site_uuid := Some ''S0''\<rparr>"
  have "auth_all_or_nothing ?s"
    by (simp add: auth_all_or_nothing_def)
  moreover have "\<not> auth_all_or_nothing (store_credentials root ?s)"
    using assms None
    by (auto simp: store_credentials_def consistent_credentials_def auth_all_or_nothing_def
        Let_def split: option.splits)
  ultimately show ?thesis by blast
next
  case (Some t)
  let ?s = "demo_client\<lparr>auth_token := None, site_uuid := None\<rparr>"
  have "auth_all_or_nothing ?s"
    by (simp add: auth_all_or_nothing_def)
  moreover have "\<not> auth_all_or_nothing (store_credentials root ?s)"
    using assms Some
    by (auto simp: store_credentials_def consistent_credentials_def auth_all_or_nothing_def
        Let_def split: option.splits)
  ultimately show ?thesis by blast
qed

lemma authenticate_invariant:
  assumes "consistent_sign_ins e" and "auth_all_or_nothing s"
  shows "auth_all_or_nothing (snd (authenticate e s))"
proof -
  obtain r s' where run: "authenticate e s = (r, s')"
    by (cases "authenticate e s")
  from authenticate_cases [OF run]
  consider
    (failed) "auth_token s' = auth_token s" "site_uuid s' = site_uuid s"
  | (signed_in) cs resp body root where
      "http e (sent s) (signin_request s cs) = Inr resp" "resp_status resp = 200"
      "resp_text resp = Inr body" "fromstring e (PStr body) = Inr root"
      "s' = store_credentials root (s\<lparr>sent := sent s @ [signin_request s cs]\<rparr>)"
    by blast
  then have "auth_all_or_nothing s'"
  proof cases
    case failed
    with assms(2) show ?thesis
      by (simp add: auth_all_or_nothing_def)
  next
    case signed_in
    have "find_desc ''credentials'' root = None \<or>
      (\<exists>c. find_desc ''credentials'' root = Some c \<and> consistent_credentials c)"
    proof (cases "find_desc ''credentials'' root")
      case None
      then show ?thesis by simp
    next
      case (Some c)
      with assms(1) signed_in(1-4) show ?thesis
        unfolding consistent_sign_ins_def by blast
    qed
    moreover have "auth_all_or_nothing (s\<lparr>sent := sent s @ [signin_request s cs]\<rparr>)"
      using assms(2) by (simp add: auth_all_or_nothing_def)
    ultimately show ?thesis
      unfolding signed_in(5) by (rule store_credentials_consistent)
  qed
  with run show ?thesis by simp
qed

lemma make_api_request_fields:
  "auth_token (snd (make_api_request e endpoint meth data s)) =
     auth_token (if \<not> truthy (of_opt (auth_token s)) then snd (authenticate e s) else s) \<and>
   site_uuid (snd (make_api_request e endpoint meth data s)) =
     site_uuid (if \<not> truthy (of_opt (auth_token s)) then snd (authenticate e s) else s)"
  by (auto simp: make_api_request_def Let_def split: prod.splits sum.splits option.splits)

lemma make_api_request_invariant:
  assumes "consistent_sign_ins e" and "auth_all_or_nothing s"
  shows "auth_all_or_nothing (snd (make_api_request e endpoint meth data s))"
  using make_api_request_fields [of e endpoint meth data s]
    authenticate_invariant [OF assms] assms(2)
  by (simp add: auth_all_or_nothing_def split: if_splits)

lemma list_workbooks_invariant:
  assumes "consistent_sign_ins e" and "auth_all_or_nothing s"
  shows "auth_all_or_nothing (snd (list_workbooks e s))"
  using make_api_request_invariant [OF assms, of "''workbooks''" "''GET''" None]
  by (auto simp: list_workbooks_def split: prod.splits sum.splits exn.splits)

lemma list_data_sources_invariant:
  assumes "consistent_sign_ins e" and "auth_all_or_nothing s"
  shows "auth_all_or_nothing (snd (list_data_sources e s))"
  using make_api_request_invariant [OF assms, of "''datasources''" "''GET''" None]
  by (auto simp: list_data_sources_def split: prod.splits sum.splits exn.splits)

lemma get_workbook_details_invariant:
  assumes "consistent_sign_ins e" and "auth_all_or_nothing s"
  shows "auth_all_or_nothing (snd (get_workbook_details e wid s))"
proof -
  let ?s1 = "snd (make_api_request e (''workbooks/'' @ fmt wid) ''GET'' None s)"
  have a: "auth_all_or_nothing ?s1"
    using assms by (rule make_api_request_invariant)
  then have b: "auth_all_or_nothing
      (snd (make_api_request e (''workbooks/'' @ fmt wid @ ''/views'') ''GET'' None ?s1))"
    using assms(1) by (simp add: make_api_request_invariant)
  from a b show ?thesis
    by (auto simp: get_workbook_details_def split: prod.splits sum.splits exn.splits option.splits)
qed

lemma details_by_id_invariant:
  assumes "consistent_sign_ins e" and "auth_all_or_nothing s"
  shows "auth_all_or_nothing (snd (details_by_id e wid s))"
  using get_workbook_details_invariant [OF assms, of wid] assms(2)
  by (auto simp: details_by_id_def split: prod.splits sum.splits option.splits)

lemma initialize_session_invariant:
  "auth_all_or_nothing s \<Longrightarrow> auth_all_or_nothing (initialize_session s)"
  by (simp add: auth_all_or_nothing_def initialize_session_def)

lemma handle_call_tool_try_invariant:
  assumes "consistent_sign_ins e" and "auth_all_or_nothing s"
  shows "auth_all_or_nothing (snd (handle_call_tool_try e name arguments s))"
proof -
  let ?s0 = "if session s = None then initialize_session s else s"
  have s0: "auth_all_or_nothing ?s0"
    using assms(2) by (simp add: initialize_session_invariant)
  have t: "auth_all_or_nothing (snd (tool_test_connection e ?s0))"
    using authenticate_invariant [OF assms(1) s0]
    by (auto simp: tool_test_connection_def split: prod.splits sum.splits)
  have w: "auth_all_or_nothing (snd (tool_list_workbooks e ?s0))"
    using list_workbooks_invariant [OF assms(1) s0]
    by (auto simp: tool_list_workbooks_def split: prod.splits sum.splits)
  have d: "auth_all_or_nothing (snd (tool_list_data_sources e ?s0))"
    using list_data_sources_invariant [OF assms(1) s0]
    by (auto simp: tool_list_data_sources_def split: prod.splits sum.splits)
  have l: "auth_all_or_nothing (snd (list_workbooks e ?s0))"
    using assms(1) s0 by (rule list_workbooks_invariant)
  have g: "auth_all_or_nothing (snd (tool_get_workbook_details e arguments ?s0))"
    using l details_by_id_invariant [OF assms(1) s0] details_by_id_invariant [OF assms(1) l]
    by (auto simp: tool_get_workbook_details_def Let_def
        split: prod.splits sum.splits option.splits)
  have "auth_all_or_nothing (snd (list_data_sources e (snd (list_workbooks e ?s0))))"
    using assms(1) l by (rule list_data_sources_invariant)
  with l s0 have c: "auth_all_or_nothing (snd (tool_search_content e arguments ?s0))"
    by (auto simp: tool_search_content_def split: prod.splits sum.splits)
  from s0 t w d g c show ?thesis
    by (simp add: handle_call_tool_try_def Let_def)
qed

text \<open>
  Claim C1, as the code has it. Let every answer to a sign-in request that has status 200
  and a body that parses carry either no \<^verbatim>\<open>credentials\<close> element or a consistent one: one
  with a \<^verbatim>\<open>site\<close> child, that has a \<^verbatim>\<open>token\<close> attribute exactly when the child has an
  \<^verbatim>\<open>id\<close> attribute. Then a session that has both or neither of auth token and site UUID
  set has both or neither set again after \<^verbatim>\<open>authenticate\<close>, after \<^verbatim>\<open>make_api_request\<close>
  and after any tool call, whether the operation returned or raised.
\<close>

theorem session_all_or_nothing:
  assumes "consistent_sign_ins e" and "auth_all_or_nothing s"
  shows "auth_all_or_nothing (snd (authenticate e s)) \<and>
     auth_all_or_nothing (snd (make_api_request e endpoint method data s)) \<and>
     auth_all_or_nothing (snd (handle_call_tool e name arguments s))"
proof -
  have "snd (handle_call_tool e name arguments s) = snd (handle_call_tool_try e name arguments s)"
    by (simp add: handle_call_tool_def split: prod.splits sum.splits)
  then show ?thesis
    using assms
    by (simp add: authenticate_invariant make_api_request_invariant handle_call_tool_try_invariant)
qed

theorem session_all_or_nothing_witness:
  "consistent_sign_ins (demo_env [signin_page, orders_page] [signin_doc, orders_doc]) \<and>
   auth_all_or_nothing demo_client \<and>
   auth_all_or_nothing (snd (handle_call_tool
     (demo_env [signin_page, orders_page] [signin_doc, orders_doc]) ''list_workbooks'' Map.empty
     demo_client)) \<and>
   auth_token (snd (handle_call_tool
     (demo_env [signin_page, orders_page] [signin_doc, orders_doc]) ''list_workbooks'' Map.empty
     demo_client)) = Some ''T1'' \<and>
   site_uuid (snd (handle_call_tool
     (demo_env [signin_page, orders_page] [signin_doc, orders_doc]) ''list_workbooks'' Map.empty
     demo_client)) = Some ''S1''"
proof -
  let ?e = "demo_env [signin_page, orders_page] [signin_doc, orders_doc]"
  have c: "consistent_sign_ins ?e"
    unfolding consistent_sign_ins_def
    by (auto simp: demo_env_def signin_doc_def orders_doc_def find_desc_def findall_desc_def
        find_child_def xml_get_def consistent_credentials_def split: if_splits option.splits)
  have i: "auth_all_or_nothing demo_client"
    by (simp add: auth_all_or_nothing_def demo_client_def)
  have v: "auth_token (snd (handle_call_tool ?e ''list_workbooks'' Map.empty demo_client)) = Some ''T1''"
    "site_uuid (snd (handle_call_tool ?e ''list_workbooks'' Map.empty demo_client)) = Some ''S1''"
    by (simp_all add: handle_call_tool_def handle_call_tool_try_def tool_list_workbooks_def
        list_workbooks_def orders_page_def orders_doc_def demo_simps)
  from session_all_or_nothing [OF c i, of _ _ _ "''list_workbooks''" Map.empty] v i c
  show ?thesis by simp
qed

text \<open>
  Claim C1 as stated fails: on a fresh session, a sign-in answered with status 200 and a
  \<^verbatim>\<open>credentials\<close> element that has a token and no \<^verbatim>\<open>site\<close> child, \<^verbatim>\<open>authenticate\<close>
  returns \<^verbatim>\<open>True\<close> and leaves the token set and the site UUID unset.
\<close>

theorem auth_all_or_nothing_counterexample:
  "auth_all_or_nothing (initialize_session demo_client) \<and>
   fst (authenticate (demo_env [signin_page] [token_only_doc]) (initialize_session demo_client)) = Inr True \<and>
   auth_token (snd (authenticate (demo_env [signin_page] [token_only_doc])
     (initialize_session demo_client))) = Some ''T1'' \<and>
   site_uuid (snd (authenticate (demo_env [signin_page] [token_only_doc])
     (initialize_session demo_client))) = None \<and>
   \<not> auth_all_or_nothing (snd (authenticate (demo_env [signin_page] [token_only_doc])
     (initialize_session demo_client)))"
  by (simp add: auth_all_or_nothing_def demo_env_def demo_client_def signin_page_def
      token_only_doc_def initialize_session_def authenticate_def credentials_missing_def
      signin_request_def store_credentials_def proxy_arg_def find_desc_def findall_desc_def
      find_child_def xml_get_def Let_def)

text \<open>
  Claim C9. With a credential pair and an HTTP session, a sign-in response of status 200
  whose body parses makes \<^verbatim>\<open>authenticate\<close> return \<^verbatim>\<open>True\<close>, whatever the body holds;
  and when no token came out of it, \<^verbatim>\<open>test_connection\<close> returns the success message,
  not flagged as an error, whose last line reports the auth token as missing.
\<close>

theorem authenticate_succeeds_without_token:
  assumes "token_name s = Some n" and "n \<noteq> []" and "token_value s = Some v" and "v \<noteq> []"
    and "session s = Some cs"
    and "http e (sent s) (signin_request s cs) = Inr resp"
    and "resp_status resp = 200" and "resp_text resp = Inr body"
    and "fromstring e (PStr body) = Inr root"
  shows "fst (authenticate e s) = Inr True \<and>
     (\<not> truthy (of_opt (auth_token (snd (authenticate e s)))) \<longrightarrow>
        fst (handle_call_tool e ''test_connection'' arguments s) =
          Inr \<lparr>content = [mark_ok @ '' Successfully connected to '' @ server_url s @ nl @
                  ''Site: '' @ site_id s @ nl @ ''Auth Token: Missing''],
               isError = False\<rparr>)"
proof -
  from assms(1-4) have "\<not> credentials_missing s"
    by (simp add: credentials_missing_def)
  from authenticate_signed_in [OF this assms(5-9)]
  have a: "authenticate e s =
      (Inr True, store_credentials root (s\<lparr>sent := sent s @ [signin_request s cs]\<rparr>))" .
  then show ?thesis
    using assms(5)
    by (simp add: handle_call_tool_def handle_call_tool_try_def tool_test_connection_def
        text_result_def connected_text_def store_credentials_frame)
qed

theorem authenticate_succeeds_without_token_witness:
  "fst (authenticate (demo_env [signin_page] [bare_doc]) (initialize_session demo_client)) = Inr True \<and>
   auth_token (snd (authenticate (demo_env [signin_page] [bare_doc])
     (initialize_session demo_client))) = None \<and>
   fst (handle_call_tool (demo_env [signin_page] [bare_doc]) ''test_connection'' Map.empty
         (initialize_session demo_client)) =
     Inr \<lparr>content = [mark_ok @ '' Successfully connected to https://srv'' @ nl @
             ''Site: site'' @ nl @ ''Auth Token: Missing''],
          isError = False\<rparr>"
proof -
  let ?s = "initialize_session demo_client"
  let ?e = "demo_env [signin_page] [bare_doc]"
  have t: "auth_token (snd (authenticate ?e ?s)) = None"
    by (simp add: demo_env_def demo_client_def signin_page_def bare_doc_def
        initialize_session_def authenticate_def credentials_missing_def signin_request_def
        store_credentials_def proxy_arg_def find_desc_def findall_desc_def Let_def)
  have h: "http ?e (sent ?s) (signin_request ?s \<lparr>trust_env = False, default_headers = user_agent\<rparr>) =
      Inr \<lparr>resp_status = 200, resp_content_type = ''application/xml'',
           resp_text = Inr ''signin T1 S1'', resp_json = Inl (OtherError ''not json'')\<rparr>"
    by (simp add: demo_env_def demo_client_def signin_page_def initialize_session_def
        signin_request_def)
  have p: "fromstring ?e (PStr ''signin T1 S1'') = Inr (Element ''tsResponse'' [] [])"
    by (simp add: demo_env_def bare_doc_def)
  have c: "token_name ?s = Some ''pat''" "token_value ?s = Some ''secret''"
    "session ?s = Some \<lparr>trust_env = False, default_headers = user_agent\<rparr>"
    "server_url ?s = ''https://srv''" "site_id ?s = ''site''"
    by (simp_all add: demo_client_def initialize_session_def)
  from authenticate_succeeds_without_token
    [OF c(1) _ c(2) _ c(3) h _ _ p, of Map.empty] t c(4,5)
  show ?thesis by simp
qed

section \<open>Workbook details\<close>

lemmas details_simps =
  details_env_def catalog_page_def catalog_doc_def wb1_page_def wb1_doc_def views_page_def
  views_doc_def wb1_full_def wb1_bare_def get_workbook_details_def details_record_def
  view_record_def

text \<open>
  Claim C10, as the code has it. When \<^verbatim>\<open>workbook_id\<close> is supplied with a truthy value
  (neither \<^verbatim>\<open>None\<close> nor the empty string), whatever is supplied as \<^verbatim>\<open>workbook_name\<close>:
  the workbook list is not consulted, the given id goes straight to the details step, and
  the call ends, result and client alike, as the call with the id alone does. The concrete
  call below supplies a name that matches no workbook of the catalog.
\<close>

theorem details_skip_name_resolution:
  assumes "arguments ''workbook_id'' = Some wid" and "truthy wid"
  shows "tool_get_workbook_details e arguments s = details_by_id e wid s \<and>
     handle_call_tool e ''get_workbook_details'' arguments s =
       handle_call_tool e ''get_workbook_details'' [''workbook_id'' \<mapsto> wid] s"
  using assms
  by (simp add: handle_call_tool_def handle_call_tool_try_def tool_get_workbook_details_def
      arg_get_def Let_def)

theorem details_skip_name_resolution_witness:
  "first_match (PStr ''Budget'')
     [\<lparr>wb_id = Some ''wb1'', wb_name = Some ''Sales Report'', wb_description = [],
       wb_size = ''0'', wb_createdAt = None, wb_updatedAt = None,
       wb_project = Some ''Unknown'', wb_owner = Some ''Unknown''\<rparr>] = Inr None \<and>
   fst (handle_call_tool (details_env wb1_bare) ''get_workbook_details''
         [''workbook_name'' \<mapsto> PStr ''Budget'', ''workbook_id'' \<mapsto> PStr ''wb1'']
         demo_client) =
     Inr (text_result (details_text
       \<lparr>dt_id = Some ''wb1'', dt_name = Some ''Sales Report'', dt_description = [],
        dt_size = ''0'',
        dt_views = [\<lparr>vw_id = Some ''v1'', vw_name = Some ''Overview'',
                     vw_contentUrl = Some ''Sales/sheets/Overview'',
                     vw_viewUrlName = Some ''Overview''\<rparr>],
        dt_viewCount = 1\<rparr>))"
proof -
  let ?a = "[''workbook_name'' \<mapsto> PStr ''Budget'', ''workbook_id'' \<mapsto> PStr ''wb1'']"
  have m: "first_match (PStr ''Budget'')
     [\<lparr>wb_id = Some ''wb1'', wb_name = Some ''Sales Report'', wb_description = [],
       wb_size = ''0'', wb_createdAt = None, wb_updatedAt = None,
       wb_project = Some ''Unknown'', wb_owner = Some ''Unknown''\<rparr>] = Inr None"
    by (simp add: lower_def lower_char_def)
  have i: "?a ''workbook_id'' = Some (PStr ''wb1'')"
    by simp
  have t: "truthy (PStr ''wb1'')"
    by simp
  have d: "fst (handle_call_tool (details_env wb1_bare) ''get_workbook_details''
         [''workbook_id'' \<mapsto> PStr ''wb1''] demo_client) =
     Inr (text_result (details_text
       \<lparr>dt_id = Some ''wb1'', dt_name = Some ''Sales Report'', dt_description = [],
        dt_size = ''0'',
        dt_views = [\<lparr>vw_id = Some ''v1'', vw_name = Some ''Overview'',
                     vw_contentUrl = Some ''Sales/sheets/Overview'',
                     vw_viewUrlName = Some ''Overview''\<rparr>],
        dt_viewCount = 1\<rparr>))"
    by (simp add: handle_call_tool_def handle_call_tool_try_def tool_get_workbook_details_def
        details_by_id_def arg_get_def demo_simps details_simps)
  from details_skip_name_resolution
    [where arguments = ?a and wid = "PStr ''wb1''" and e = "details_env wb1_bare"
       and s = demo_client] i t m d
  show ?thesis by simp
qed

text \<open>
  Claim C10 as stated fails when the id supplied is the empty string: the guard
  \<^verbatim>\<open>if workbook_name and not workbook_id\<close> holds, the workbook list is requested and the
  name is resolved, and the details returned are those of the workbook of that name, while
  the same id supplied alone ends in the request to provide a name or an id.
\<close>

theorem details_skip_name_resolution_counterexample:
  "fst (handle_call_tool (details_env wb1_bare) ''get_workbook_details''
         [''workbook_name'' \<mapsto> PStr ''Sales Report'', ''workbook_id'' \<mapsto> PStr []]
         demo_client) =
     Inr (text_result (details_text
       \<lparr>dt_id = Some ''wb1'', dt_name = Some ''Sales Report'', dt_description = [],
        dt_size = ''0'',
        dt_views = [\<lparr>vw_id = Some ''v1'', vw_name = Some ''Overview'',
                     vw_contentUrl = Some ''Sales/sheets/Overview'',
                     vw_viewUrlName = Some ''Overview''\<rparr>],
        dt_viewCount = 1\<rparr>)) \<and>
   map req_url (sent (snd (handle_call_tool (details_env wb1_bare) ''get_workbook_details''
         [''workbook_name'' \<mapsto> PStr ''Sales Report'', ''workbook_id'' \<mapsto> PStr []]
         demo_client))) =
     [''https://srv/api/3.19/auth/signin'', ''https://srv/api/3.19/sites/S1/workbooks'',
      ''https://srv/api/3.19/sites/S1/workbooks/wb1'',
      ''https://srv/api/3.19/sites/S1/workbooks/wb1/views''] \<and>
   fst (handle_call_tool (details_env wb1_bare) ''get_workbook_details''
         [''workbook_id'' \<mapsto> PStr []] demo_client) =
     Inr (error_result (mark_fail @ '' Please provide either workbook_name or workbook_id.''))"
  by (simp add: demo_simps details_simps handle_call_tool_def handle_call_tool_try_def
      tool_get_workbook_details_def details_by_id_def arg_get_def list_workbooks_def
      workbook_record_def nested_name_def lower_def lower_char_def)

text \<open>
  Claim C8, as the code has it. \<^verbatim>\<open>get_workbook_details\<close> returns \<^verbatim>\<open>None\<close> when the
  workbook lookup fails: the payload \<open>p\<close> of the workbook request is falsy, is malformed
  XML, or has no \<^verbatim>\<open>workbook\<close> element below its root. When the lookup succeeds with a
  workbook element \<open>w\<close>, the payload \<open>vp\<close> of the views request decides: if \<open>vp\<close> is falsy
  or parses, the record returned carries the id, name, description (default empty) and
  size (default \<^verbatim>\<open>'0'\<close>) of \<open>w\<close> and no other field of it, the View records (id, name,
  contentUrl, viewUrlName) of the \<^verbatim>\<open>view\<close> elements of \<open>vp\<close> in document order (none
  when \<open>vp\<close> is falsy) and their number as view count; if \<open>vp\<close> is malformed XML, the
  method returns \<^verbatim>\<open>None\<close>. An exception raised by either request, or by the parser
  other than \<^verbatim>\<open>ParseError\<close>, leaves the method.
\<close>

theorem get_workbook_details_record:
  "(make_api_request e (''workbooks/'' @ fmt wid) ''GET'' None s = (Inl ex, s1) \<longrightarrow>
      get_workbook_details e wid s = (Inl ex, s1)) \<and>
   (make_api_request e (''workbooks/'' @ fmt wid) ''GET'' None s = (Inr p, s1) \<longrightarrow>
      (\<not> truthy p \<or> (\<exists>m. fromstring e p = Inl (ParseError m)) \<or>
       (\<exists>root. fromstring e p = Inr root \<and> find_desc ''workbook'' root = None) \<longrightarrow>
         get_workbook_details e wid s = (Inr None, s1)) \<and>
      (truthy p \<and> fromstring e p = Inl ex \<and> (\<forall>m. ex \<noteq> ParseError m) \<longrightarrow>
         get_workbook_details e wid s = (Inl ex, s1)) \<and>
      (truthy p \<and> fromstring e p = Inr root \<and> find_desc ''workbook'' root = Some w \<longrightarrow>
         (make_api_request e (''workbooks/'' @ fmt wid @ ''/views'') ''GET'' None s1 = (Inl ex, s2) \<longrightarrow>
            get_workbook_details e wid s = (Inl ex, s2)) \<and>
         (make_api_request e (''workbooks/'' @ fmt wid @ ''/views'') ''GET'' None s1 = (Inr vp, s2) \<longrightarrow>
            (\<not> truthy vp \<longrightarrow>
               get_workbook_details e wid s =
                 (Inr (Some \<lparr>dt_id = xml_get w ''id'', dt_name = xml_get w ''name'',
                     dt_description = xml_get_default w ''description'' [],
                     dt_size = xml_get_default w ''size'' ''0'',
                     dt_views = [], dt_viewCount = 0\<rparr>), s2)) \<and>
            (truthy vp \<and> fromstring e vp = Inr vroot \<longrightarrow>
               get_workbook_details e wid s =
                 (Inr (Some \<lparr>dt_id = xml_get w ''id'', dt_name = xml_get w ''name'',
                     dt_description = xml_get_default w ''description'' [],
                     dt_size = xml_get_default w ''size'' ''0'',
                     dt_views =
                       map (\<lambda>v. \<lparr>vw_id = xml_get v ''id'', vw_name = xml_get v ''name'',
                                 vw_contentUrl = xml_get v ''contentUrl'',
                                 vw_viewUrlName = xml_get v ''viewUrlName''\<rparr>)
                         (findall_desc ''view'' vroot),
                     dt_viewCount = length (findall_desc ''view'' vroot)\<rparr>), s2)) \<and>
            (truthy vp \<and> (\<exists>m. fromstring e vp = Inl (ParseError m)) \<longrightarrow>
               get_workbook_details e wid s = (Inr None, s2)) \<and>
            (truthy vp \<and> fromstring e vp = Inl ex \<and> (\<forall>m. ex \<noteq> ParseError m) \<longrightarrow>
               get_workbook_details e wid s = (Inl ex, s2)))))"
  by (auto simp: get_workbook_details_def details_record_def view_record_def
      split: exn.splits)

theorem get_workbook_details_record_witness:
  "fst (get_workbook_details (details_env wb1_full) (PStr ''wb1'') (initialize_session demo_client)) =
     Inr (Some \<lparr>dt_id = Some ''wb1'', dt_name = Some ''Sales Report'', dt_description = [],
        dt_size = ''0'',
        dt_views = [\<lparr>vw_id = Some ''v1'', vw_name = Some ''Overview'',
                     vw_contentUrl = Some ''Sales/sheets/Overview'',
                     vw_viewUrlName = Some ''Overview''\<rparr>],
        dt_viewCount = 1\<rparr>) \<and>
   fst (get_workbook_details garbled_views_env (PStr ''wb1'') (initialize_session demo_client)) =
     Inr None"
proof -
  let ?e = "details_env wb1_full"
  let ?g = garbled_views_env
  let ?s = "initialize_session demo_client"
  let ?wid = "PStr ''wb1''"
  let ?s1 = "snd (make_api_request ?e (''workbooks/'' @ fmt ?wid) ''GET'' None ?s)"
  let ?s2 = "snd (make_api_request ?e (''workbooks/'' @ fmt ?wid @ ''/views'') ''GET'' None ?s1)"
  let ?t1 = "snd (make_api_request ?g (''workbooks/'' @ fmt ?wid) ''GET'' None ?s)"
  let ?t2 = "snd (make_api_request ?g (''workbooks/'' @ fmt ?wid @ ''/views'') ''GET'' None ?t1)"
  have "fst (make_api_request ?e (''workbooks/'' @ fmt ?wid) ''GET'' None ?s) = Inr (PStr ''workbook wb1'')"
    by (simp add: demo_simps details_simps)
  then have a: "make_api_request ?e (''workbooks/'' @ fmt ?wid) ''GET'' None ?s =
      (Inr (PStr ''workbook wb1''), ?s1)"
    by (metis prod.collapse)
  have "fst (make_api_request ?e (''workbooks/'' @ fmt ?wid @ ''/views'') ''GET'' None ?s1) =
      Inr (PStr ''views wb1'')"
    by (simp add: demo_simps details_simps)
  then have d: "make_api_request ?e (''workbooks/'' @ fmt ?wid @ ''/views'') ''GET'' None ?s1 =
      (Inr (PStr ''views wb1''), ?s2)"
    by (metis prod.collapse)
  have b: "truthy (PStr ''workbook wb1'')"
    "fromstring ?e (PStr ''workbook wb1'') = Inr (Element ''tsResponse'' [] [wb1_full])"
    "find_desc ''workbook'' (Element ''tsResponse'' [] [wb1_full]) = Some wb1_full"
    "truthy (PStr ''views wb1'')" "fromstring ?e (PStr ''views wb1'') = Inr (snd views_doc)"
    by (simp_all add: demo_simps details_simps)
  from get_workbook_details_record
    [where e = ?e and wid = ?wid and s = ?s and p = "PStr ''workbook wb1''" and ?s1.0 = ?s1
       and root = "Element ''tsResponse'' [] [wb1_full]" and w = wb1_full
       and vp = "PStr ''views wb1''" and ?s2.0 = ?s2 and vroot = "snd views_doc"] a b d
  have "get_workbook_details ?e ?wid ?s =
      (Inr (Some \<lparr>dt_id = xml_get wb1_full ''id'', dt_name = xml_get wb1_full ''name'',
          dt_description = xml_get_default wb1_full ''description'' [],
          dt_size = xml_get_default wb1_full ''size'' ''0'',
          dt_views =
            map (\<lambda>v. \<lparr>vw_id = xml_get v ''id'', vw_name = xml_get v ''name'',
                      vw_contentUrl = xml_get v ''contentUrl'',
                      vw_viewUrlName = xml_get v ''viewUrlName''\<rparr>)
              (findall_desc ''view'' (snd views_doc)),
          dt_viewCount = length (findall_desc ''view'' (snd views_doc))\<rparr>), ?s2)"
    by blast
  then have r1: "fst (get_workbook_details ?e ?wid ?s) =
     Inr (Some \<lparr>dt_id = Some ''wb1'', dt_name = Some ''Sales Report'', dt_description = [],
        dt_size = ''0'',
        dt_views = [\<lparr>vw_id = Some ''v1'', vw_name = Some ''Overview'',
                     vw_contentUrl = Some ''Sales/sheets/Overview'',
                     vw_viewUrlName = Some ''Overview''\<rparr>],
        dt_viewCount = 1\<rparr>)"
    by (simp add: views_doc_def wb1_full_def findall_desc_def xml_get_def xml_get_default_def)
  have "fst (make_api_request ?g (''workbooks/'' @ fmt ?wid) ''GET'' None ?s) = Inr (PStr ''workbook wb1'')"
    by (simp add: garbled_views_env_def garbled_views_page_def demo_simps details_simps)
  then have a': "make_api_request ?g (''workbooks/'' @ fmt ?wid) ''GET'' None ?s =
      (Inr (PStr ''workbook wb1''), ?t1)"
    by (metis prod.collapse)
  have "fst (make_api_request ?g (''workbooks/'' @ fmt ?wid @ ''/views'') ''GET'' None ?t1) =
      Inr (PStr ''<tsResponse><view'')"
    by (simp add: garbled_views_env_def garbled_views_page_def demo_simps details_simps)
  then have d': "make_api_request ?g (''workbooks/'' @ fmt ?wid @ ''/views'') ''GET'' None ?t1 =
      (Inr (PStr ''<tsResponse><view''), ?t2)"
    by (metis prod.collapse)
  have b': "fromstring ?g (PStr ''workbook wb1'') = Inr (Element ''tsResponse'' [] [wb1_bare])"
    "find_desc ''workbook'' (Element ''tsResponse'' [] [wb1_bare]) = Some wb1_bare"
    "truthy (PStr ''<tsResponse><view'')"
    "fromstring ?g (PStr ''<tsResponse><view'') = Inl (ParseError ''syntax error'')"
    by (simp_all add: garbled_views_env_def garbled_views_page_def demo_simps details_simps)
  from get_workbook_details_record
    [where e = ?g and wid = ?wid and s = ?s and p = "PStr ''workbook wb1''" and ?s1.0 = ?t1
       and root = "Element ''tsResponse'' [] [wb1_bare]" and w = wb1_bare
       and vp = "PStr ''<tsResponse><view''" and ?s2.0 = ?t2] a' b(1) b' d'
  have "get_workbook_details ?g ?wid ?s = (Inr None, ?t2)"
    by blast
  with r1 show ?thesis by simp
qed

text \<open>
  Claim C8 as stated fails in each of these ways. The record is no full Workbook record:
  for a workbook the server describes with timestamps, project \<^verbatim>\<open>Finance\<close> and owner
  \<^verbatim>\<open>alice\<close> the method returns the very record it returns for the workbook described
  without them, while the Workbook records \<^verbatim>\<open>list_workbooks\<close> builds of the two differ in
  exactly these fields. After a successful lookup a malformed views payload gives
  \<^verbatim>\<open>None\<close> and no record. And where the lookup fails by an exception, the method
  raises instead of returning \<^verbatim>\<open>None\<close>: on a views or a workbook answer that decodes to
  a list, and on a client without credentials.
\<close>

theorem details_not_full_workbook_counterexample:
  "fst (get_workbook_details (details_env wb1_full) (PStr ''wb1'') (initialize_session demo_client)) =
     Inr (Some \<lparr>dt_id = Some ''wb1'', dt_name = Some ''Sales Report'', dt_description = [],
        dt_size = ''0'',
        dt_views = [\<lparr>vw_id = Some ''v1'', vw_name = Some ''Overview'',
                     vw_contentUrl = Some ''Sales/sheets/Overview'',
                     vw_viewUrlName = Some ''Overview''\<rparr>],
        dt_viewCount = 1\<rparr>) \<and>
   fst (get_workbook_details (details_env wb1_bare) (PStr ''wb1'') (initialize_session demo_client)) =
     Inr (Some \<lparr>dt_id = Some ''wb1'', dt_name = Some ''Sales Report'', dt_description = [],
        dt_size = ''0'',
        dt_views = [\<lparr>vw_id = Some ''v1'', vw_name = Some ''Overview'',
                     vw_contentUrl = Some ''Sales/sheets/Overview'',
                     vw_viewUrlName = Some ''Overview''\<rparr>],
        dt_viewCount = 1\<rparr>) \<and>
   workbook_record wb1_full =
     \<lparr>wb_id = Some ''wb1'', wb_name = Some ''Sales Report'', wb_description = [],
      wb_size = ''0'', wb_createdAt = Some ''2024-01-01'', wb_updatedAt = Some ''2024-02-02'',
      wb_project = Some ''Finance'', wb_owner = Some ''alice''\<rparr> \<and>
   workbook_record wb1_bare =
     \<lparr>wb_id = Some ''wb1'', wb_name = Some ''Sales Report'', wb_description = [],
      wb_size = ''0'', wb_createdAt = None, wb_updatedAt = None,
      wb_project = Some ''Unknown'', wb_owner = Some ''Unknown''\<rparr> \<and>
   fst (make_api_request garbled_views_env ''workbooks/wb1'' ''GET'' None
         (initialize_session demo_client)) = Inr (PStr ''workbook wb1'') \<and>
   fromstring garbled_views_env (PStr ''workbook wb1'') =
     Inr (Element ''tsResponse'' [] [wb1_bare]) \<and>
   fst (get_workbook_details garbled_views_env (PStr ''wb1'') (initialize_session demo_client)) =
     Inr None \<and>
   fst (get_workbook_details json_views_env (PStr ''wb1'') (initialize_session demo_client)) =
     Inl (TypeError ''not a string'') \<and>
   fst (get_workbook_details json_env (PStr ''wb1'') (initialize_session demo_client)) =
     Inl (TypeError ''not a string'') \<and>
   fst (get_workbook_details (details_env wb1_bare) (PStr ''wb1'')
         (initialize_session (demo_client\<lparr>token_value := None\<rparr>))) =
     Inl (ValueError ''TABLEAU_TOKEN_NAME and TABLEAU_TOKEN_VALUE must be set in .env file'')"
  by (simp add: demo_simps details_simps workbook_record_def nested_name_def
      garbled_views_env_def garbled_views_page_def json_views_env_def json_env_def
      json_answer_def missing_credentials_error_def)

section \<open>Resolving a workbook by name\<close>

lemma first_match_find:
  "list_all (\<lambda>wb. wb_name wb \<noteq> None) (takeWhile (\<lambda>wb. \<not> same_name w wb) wbs) \<Longrightarrow>
     first_match (PStr w) wbs = Inr (find (same_name w) wbs)"
proof (induction wbs)
  case Nil
  show ?case by simp
next
  case (Cons wb wbs)
  show ?case
  proof (cases "same_name w wb")
    case True
    then show ?thesis
      by (auto simp: same_name_def split: option.splits)
  next
    case False
    with Cons.prems obtain n where n: "wb_name wb = Some n"
      by auto
    with False have "lower n \<noteq> lower w"
      by (simp add: same_name_def)
    with n False Cons show ?thesis
      by simp
  qed
qed

text \<open>
  Claim C4, as the code has it. Let \<^verbatim>\<open>workbook_name\<close> be a non-empty string given without
  a (truthy) \<^verbatim>\<open>workbook_id\<close>, and let every workbook of the list before the first one with
  that name carry a name. Then the name is resolved by case-insensitive exact match, the
  first matching workbook in list order wins and its id goes to the details step, and
  when no workbook matches the call returns the error-flagged text that the workbook was
  not found.
\<close>

theorem name_resolution:
  assumes "arguments ''workbook_name'' = Some (PStr w)" and "w \<noteq> []"
    and "\<not> truthy (arg_get arguments ''workbook_id'')"
    and "list_workbooks e (if session s = None then initialize_session s else s) = (Inr wbs, s1)"
    and "list_all (\<lambda>wb. wb_name wb \<noteq> None) (takeWhile (\<lambda>wb. \<not> same_name w wb) wbs)"
  shows "first_match (PStr w) wbs = Inr (find (same_name w) wbs) \<and>
     (find (same_name w) wbs = None \<longrightarrow>
        handle_call_tool e ''get_workbook_details'' arguments s =
          (Inr \<lparr>content = [not_found_text (PStr w)], isError = True\<rparr>, s1)) \<and>
     (find (same_name w) wbs = Some wb \<longrightarrow>
        handle_call_tool_try e ''get_workbook_details'' arguments s =
          details_by_id e (of_opt (wb_id wb)) s1)"
proof -
  have m: "first_match (PStr w) wbs = Inr (find (same_name w) wbs)"
    using assms(5) by (rule first_match_find)
  have n: "arg_get arguments ''workbook_name'' = PStr w"
    using assms(1) by (simp add: arg_get_def)
  have t: "handle_call_tool_try e ''get_workbook_details'' arguments s =
      (case find (same_name w) wbs of
         None \<Rightarrow> (Inr (error_result (not_found_text (PStr w))), s1)
       | Some wb \<Rightarrow> details_by_id e (of_opt (wb_id wb)) s1)"
    using assms(2-4) n m
    by (simp add: handle_call_tool_try_def tool_get_workbook_details_def Let_def)
  from m t show ?thesis
    by (auto simp: handle_call_tool_def error_result_def)
qed

lemmas tool_simps =
  handle_call_tool_def handle_call_tool_try_def tool_get_workbook_details_def
  tool_search_content_def details_by_id_def arg_get_def arg_get_default_def list_workbooks_def
  list_data_sources_def workbook_record_def data_source_record_def nested_name_def
  lower_def lower_char_def

theorem name_resolution_witness:
  "first_match (PStr ''SALES REPORT'') [sales_report, sales_report_copy] = Inr (Some sales_report) \<and>
   fst (handle_call_tool (details_env wb1_bare) ''get_workbook_details''
         [''workbook_name'' \<mapsto> PStr ''SALES REPORT''] demo_client) =
     Inr (text_result (details_text
       \<lparr>dt_id = Some ''wb1'', dt_name = Some ''Sales Report'', dt_description = [],
        dt_size = ''0'',
        dt_views = [\<lparr>vw_id = Some ''v1'', vw_name = Some ''Overview'',
                     vw_contentUrl = Some ''Sales/sheets/Overview'',
                     vw_viewUrlName = Some ''Overview''\<rparr>],
        dt_viewCount = 1\<rparr>)) \<and>
   first_match (PStr ''Sales'') [sales_report, sales_report_copy] = Inr None \<and>
   fst (handle_call_tool (details_env wb1_bare) ''get_workbook_details''
         [''workbook_name'' \<mapsto> PStr ''Sales''] demo_client) =
     Inr \<lparr>content = [mark_fail @ '' Workbook '' @ sq @ ''Sales'' @ sq @ '' not found.''],
          isError = True\<rparr>"
proof -
  let ?e = "details_env wb1_bare"
  let ?s0 = "if session demo_client = None then initialize_session demo_client else demo_client"
  let ?wbs = "[sales_report, sales_report_copy]"
  let ?s1 = "snd (list_workbooks ?e ?s0)"
  have "fst (list_workbooks ?e ?s0) = Inr ?wbs"
    by (simp add: demo_simps details_simps tool_simps sales_report_def sales_report_copy_def)
  then have l: "list_workbooks ?e ?s0 = (Inr ?wbs, ?s1)"
    by (metis prod.collapse)
  have f1: "find (same_name ''SALES REPORT'') ?wbs = Some sales_report"
    and f2: "find (same_name ''Sales'') ?wbs = None"
    by (simp_all add: same_name_def sales_report_def sales_report_copy_def lower_def lower_char_def)
  have n1: "list_all (\<lambda>wb. wb_name wb \<noteq> None)
      (takeWhile (\<lambda>wb. \<not> same_name ''SALES REPORT'' wb) ?wbs)"
    and n2: "list_all (\<lambda>wb. wb_name wb \<noteq> None)
      (takeWhile (\<lambda>wb. \<not> same_name ''Sales'' wb) ?wbs)"
    by (simp_all add: same_name_def sales_report_def sales_report_copy_def lower_def lower_char_def)
  have a1: "[''workbook_name'' \<mapsto> PStr ''SALES REPORT''] ''workbook_name'' = Some (PStr ''SALES REPORT'')"
    "''SALES REPORT'' \<noteq> []"
    "\<not> truthy (arg_get [''workbook_name'' \<mapsto> PStr ''SALES REPORT''] ''workbook_id'')"
    and a2: "[''workbook_name'' \<mapsto> PStr ''Sales''] ''workbook_name'' = Some (PStr ''Sales'')"
    "''Sales'' \<noteq> []"
    "\<not> truthy (arg_get [''workbook_name'' \<mapsto> PStr ''Sales''] ''workbook_id'')"
    by (simp_all add: arg_get_def)
  from name_resolution [OF a1 l n1] f1
  have r1: "first_match (PStr ''SALES REPORT'') ?wbs = Inr (Some sales_report)"
    by simp
  from name_resolution [OF a2 l n2] f2
  have r2: "first_match (PStr ''Sales'') ?wbs = Inr None"
    and r3: "fst (handle_call_tool ?e ''get_workbook_details''
         [''workbook_name'' \<mapsto> PStr ''Sales''] demo_client) =
       Inr \<lparr>content = [not_found_text (PStr ''Sales'')], isError = True\<rparr>"
    by simp_all
  have r4: "fst (handle_call_tool ?e ''get_workbook_details''
         [''workbook_name'' \<mapsto> PStr ''SALES REPORT''] demo_client) =
     Inr (text_result (details_text
       \<lparr>dt_id = Some ''wb1'', dt_name = Some ''Sales Report'', dt_description = [],
        dt_size = ''0'',
        dt_views = [\<lparr>vw_id = Some ''v1'', vw_name = Some ''Overview'',
                     vw_contentUrl = Some ''Sales/sheets/Overview'',
                     vw_viewUrlName = Some ''Overview''\<rparr>],
        dt_viewCount = 1\<rparr>))"
    by (simp add: demo_simps details_simps tool_simps)
  from r1 r2 r3 r4 show ?thesis
    by (simp add: not_found_text_def)
qed

text \<open>
  Claim C4 as stated fails on a list whose first workbook has no \<^verbatim>\<open>name\<close> attribute:
  \<^verbatim>\<open>wb['name'].lower()\<close> raises on it before the workbook named \<^verbatim>\<open>Sales Report\<close> is
  reached, and the call ends in the handler's generic error instead of resolving the name.
\<close>

theorem name_resolution_counterexample:
  "fst (list_workbooks nameless_env (initialize_session demo_client)) =
     Inr [\<lparr>wb_id = Some ''wb0'', wb_name = None, wb_description = ''Sales figures'',
            wb_size = ''0'', wb_createdAt = None, wb_updatedAt = None,
            wb_project = Some ''Unknown'', wb_owner = Some ''Unknown''\<rparr>,
          sales_report] \<and>
   same_name ''SALES REPORT'' sales_report \<and>
   fst (handle_call_tool nameless_env ''get_workbook_details''
         [''workbook_name'' \<mapsto> PStr ''SALES REPORT''] demo_client) =
     Inr \<lparr>content = [''Error executing get_workbook_details: '' @ sq @ ''NoneType'' @ sq @
             '' object has no attribute '' @ sq @ ''lower'' @ sq],
          isError = True\<rparr>"
  by (simp add: nameless_env_def nameless_page_def nameless_doc_def demo_simps tool_simps
      sales_report_def same_name_def no_lower_def error_result_def)

section \<open>Searching the catalog\<close>

lemma filter_raise_total:
  "list_all (\<lambda>x. p x = Inr (q x)) xs \<Longrightarrow> filter_raise p xs = Inr (filter q xs)"
  by (induction xs) simp_all

lemma workbook_matches_named:
  "wb_name wb \<noteq> None \<Longrightarrow> workbook_matches (lower q) wb = Inr (workbook_found q wb)"
  by (auto simp: workbook_matches_def workbook_found_def contains_ci_def)

lemma data_source_matches_named:
  "ds_name ds \<noteq> None \<Longrightarrow> data_source_matches (lower q) ds = Inr (data_source_found q ds)"
  by (auto simp: data_source_matches_def data_source_found_def contains_ci_def)

lemma filter_workbooks:
  assumes "list_all (\<lambda>wb. wb_name wb \<noteq> None) wbs"
  shows "filter_raise (workbook_matches (lower q)) wbs = Inr (filter (workbook_found q) wbs)"
proof (rule filter_raise_total)
  show "list_all (\<lambda>x. workbook_matches (lower q) x = Inr (workbook_found q x)) wbs"
    using assms by (induction wbs) (simp_all add: workbook_matches_named)
qed

lemma filter_data_sources:
  assumes "list_all (\<lambda>ds. ds_name ds \<noteq> None) dss"
  shows "filter_raise (data_source_matches (lower q)) dss = Inr (filter (data_source_found q) dss)"
proof (rule filter_raise_total)
  show "list_all (\<lambda>x. data_source_matches (lower q) x = Inr (data_source_found q x)) dss"
    using assms by (induction dss) (simp_all add: data_source_matches_named)
qed

lemma hd_join: "x \<noteq> [] \<Longrightarrow> hd (join sep (x # xs)) = hd x"
  by (cases xs) simp_all

lemma no_content_iff:
  "(join nl (search_results query mw md) = no_content_text query) = (mw = [] \<and> md = [])"
proof (cases "mw = []")
  case False
  then have "hd (join nl (search_results query mw md)) = CHR ''*''"
    by (simp add: search_results_def hd_join)
  moreover have "hd (no_content_text query) = CHR ''N''"
    by (simp add: no_content_text_def)
  ultimately show ?thesis
    using False by auto
next
  case True
  note mw = this
  show ?thesis
  proof (cases "md = []")
    case True
    with mw show ?thesis
      by (simp add: search_results_def)
  next
    case False
    with mw have "hd (join nl (search_results query mw md)) = CHR 0x0A"
      by (simp add: search_results_def hd_join nl_def)
    moreover have "hd (no_content_text query) = CHR ''N''"
      by (simp add: no_content_text_def)
    ultimately show ?thesis
      using False by auto
  qed
qed

text \<open>
  Claim C5, as the code has it. Let the query be a string (the empty string when the
  argument is absent) and let every workbook and every data source of the two lists carry
  a name. Then \<^verbatim>\<open>search_content\<close> returns a text that is not flagged as an error and
  lists, first under the workbooks' heading and then under the data sources' heading,
  exactly the workbooks and the data sources whose name or description contains the query
  case-insensitively, in list order; and the text is the message that no content was found
  exactly when neither list has a match.
\<close>

theorem search_content_matches:
  assumes "arg_get_default arguments ''query'' (PStr []) = PStr q"
    and "list_workbooks e (if session s = None then initialize_session s else s) = (Inr wbs, s1)"
    and "list_data_sources e s1 = (Inr dss, s2)"
    and "list_all (\<lambda>wb. wb_name wb \<noteq> None) wbs"
    and "list_all (\<lambda>ds. ds_name ds \<noteq> None) dss"
  shows "handle_call_tool e ''search_content'' arguments s =
       (Inr \<lparr>content =
                [join nl (search_results (lower q) (filter (workbook_found q) wbs)
                   (filter (data_source_found q) dss))],
             isError = False\<rparr>, s2) \<and>
     ((join nl (search_results (lower q) (filter (workbook_found q) wbs)
          (filter (data_source_found q) dss)) = no_content_text (lower q)) =
      (filter (workbook_found q) wbs = [] \<and> filter (data_source_found q) dss = []))"
proof -
  have "handle_call_tool e ''search_content'' arguments s =
       (Inr \<lparr>content =
                [join nl (search_results (lower q) (filter (workbook_found q) wbs)
                   (filter (data_source_found q) dss))],
             isError = False\<rparr>, s2)"
    using assms(1-3) filter_workbooks [OF assms(4), of q] filter_data_sources [OF assms(5), of q]
    by (simp add: handle_call_tool_def handle_call_tool_try_def tool_search_content_def
        text_result_def)
  then show ?thesis
    by (simp add: no_content_iff)
qed

theorem search_content_matches_witness:
  "fst (handle_call_tool search_env ''search_content'' [''query'' \<mapsto> PStr ''SALES''] demo_client) =
     Inr \<lparr>content =
            [join nl
               [''**'' @ mark_workbook @ '' Workbooks matching '' @ sq @ ''sales'' @ sq @ '':**'',
                ''   '' @ mark_bullet @ '' Sales Report (Project: Unknown)'',
                ''   '' @ mark_bullet @ '' sales report copy (Project: Unknown)'',
                nl @ ''**'' @ mark_datasource @ '' Data Sources matching '' @ sq @ ''sales'' @ sq @ '':**'',
                ''   '' @ mark_bullet @ '' Warehouse (Type: sqlserver)'']],
          isError = False\<rparr> \<and>
   fst (handle_call_tool search_env ''search_content'' [''query'' \<mapsto> PStr ''Budget''] demo_client) =
     Inr \<lparr>content = [''No content found matching '' @ sq @ ''budget'' @ sq], isError = False\<rparr>"
proof -
  let ?e = search_env
  let ?s0 = "if session demo_client = None then initialize_session demo_client else demo_client"
  let ?wbs = "[sales_report, sales_report_copy]"
  let ?s1 = "snd (list_workbooks ?e ?s0)"
  let ?s2 = "snd (list_data_sources ?e ?s1)"
  have "fst (list_workbooks ?e ?s0) = Inr ?wbs"
    by (simp add: search_env_def sources_page_def sources_doc_def demo_simps details_simps
        tool_simps sales_report_def sales_report_copy_def)
  then have l: "list_workbooks ?e ?s0 = (Inr ?wbs, ?s1)"
    by (metis prod.collapse)
  have "fst (list_data_sources ?e ?s1) = Inr [warehouse]"
    by (simp add: search_env_def sources_page_def sources_doc_def demo_simps details_simps
        tool_simps warehouse_def)
  then have d: "list_data_sources ?e ?s1 = (Inr [warehouse], ?s2)"
    by (metis prod.collapse)
  have n: "list_all (\<lambda>wb. wb_name wb \<noteq> None) ?wbs" "list_all (\<lambda>ds. ds_name ds \<noteq> None) [warehouse]"
    by (simp_all add: sales_report_def sales_report_copy_def warehouse_def)
  have q1: "arg_get_default [''query'' \<mapsto> PStr ''SALES''] ''query'' (PStr []) = PStr ''SALES''"
    and q2: "arg_get_default [''query'' \<mapsto> PStr ''Budget''] ''query'' (PStr []) = PStr ''Budget''"
    by (simp_all add: arg_get_default_def)
  have f1: "filter (workbook_found ''SALES'') ?wbs = ?wbs"
    "filter (data_source_found ''SALES'') [warehouse] = [warehouse]"
    and f2: "filter (workbook_found ''Budget'') ?wbs = []"
    "filter (data_source_found ''Budget'') [warehouse] = []"
    by (simp_all add: workbook_found_def data_source_found_def contains_ci_def lower_def
        lower_char_def sales_report_def sales_report_copy_def warehouse_def sublist_Cons_right)
  have w: "lower ''SALES'' = ''sales''" "lower ''Budget'' = ''budget''"
    by (simp_all add: lower_def lower_char_def)
  from search_content_matches [OF q1 l d n] f1 w
  have r1: "fst (handle_call_tool ?e ''search_content'' [''query'' \<mapsto> PStr ''SALES''] demo_client) =
      Inr \<lparr>content = [join nl (search_results ''sales'' ?wbs [warehouse])], isError = False\<rparr>"
    by simp
  from search_content_matches [OF q2 l d n] f2 w
  have r2: "fst (handle_call_tool ?e ''search_content'' [''query'' \<mapsto> PStr ''Budget''] demo_client) =
      Inr \<lparr>content = [join nl (search_results ''budget'' [] [])], isError = False\<rparr>"
    by simp
  from r1 r2 show ?thesis
    by (simp add: search_results_def workbook_hit_def data_source_hit_def no_content_text_def
        fmt_opt_def sales_report_def sales_report_copy_def warehouse_def)
qed

text \<open>
  Claim C5 as stated fails on a list with a workbook that has no \<^verbatim>\<open>name\<close> attribute: its
  description contains the query, and so does the name of the next workbook, yet the call
  ends in the handler's generic error, flagged as an error, with no match reported.
\<close>

theorem search_content_counterexample:
  "fst (list_workbooks nameless_env (initialize_session demo_client)) =
     Inr [\<lparr>wb_id = Some ''wb0'', wb_name = None, wb_description = ''Sales figures'',
            wb_size = ''0'', wb_createdAt = None, wb_updatedAt = None,
            wb_project = Some ''Unknown'', wb_owner = Some ''Unknown''\<rparr>,
          sales_report] \<and>
   contains_ci ''sales'' ''Sales figures'' \<and>
   workbook_found ''sales'' sales_report \<and>
   fst (handle_call_tool nameless_env ''search_content'' [''query'' \<mapsto> PStr ''sales'']
         demo_client) =
     Inr \<lparr>content = [''Error executing search_content: '' @ sq @ ''NoneType'' @ sq @
             '' object has no attribute '' @ sq @ ''lower'' @ sq],
          isError = True\<rparr>"
  by (simp add: nameless_env_def nameless_page_def nameless_doc_def demo_simps tool_simps
      sales_report_def workbook_found_def contains_ci_def no_lower_def error_result_def
      workbook_matches_def)

section \<open>Empty and malformed answers\<close>






end
